theory Spec2Isabelle
  imports Main
begin

section \<open>Client-side collection synchronizers of wordpan\<close>

text \<open>
  The three React hooks \<^verbatim>\<open>useFlashcards\<close>, \<^verbatim>\<open>useFavoriteWords\<close> and
  \<^verbatim>\<open>useWordPairs\<close> each hold a mirror of a remote collection in component state and
  expose asynchronous operations on it. An operation is modelled as a function of
  \<^item> the hook state at the time of the call (the values its closure captured),
  \<^item> its arguments and the clock readings it takes (\<^verbatim>\<open>new Date().toISOString()\<close>),
  \<^item> what every remote call it awaits settles with,
  and it yields the hook state once the operation has settled, the value its promise
  resolves with, and the remote calls it issued, in order. A response parameter of a call
  that the operation never issues is not looked at. Operations are taken one at a time:
  none starts while another is in flight, so the state an operation finds when its request
  settles is the state it left when it started.
\<close>

subsection \<open>JavaScript values\<close>

text \<open>
  A value that is thrown, caught or kept in the \<^verbatim>\<open>error\<close> state. \<open>is_Error\<close> says
  whether \<^verbatim>\<open>err instanceof Error\<close> holds for it: a store error is an object with a
  message and a code, and whether it is an \<^verbatim>\<open>Error\<close> instance depends on the client
  library, so it is part of the value.
\<close>

record js_error =
  message :: string
  code :: "string option"
  is_Error :: bool

definition new_Error :: "string \<Rightarrow> js_error" where
  "new_Error msg = \<lparr>message = msg, code = None, is_Error = True\<rparr>"

text \<open>\<^verbatim>\<open>err instanceof Error ? err : new Error(fallback)\<close>\<close>

definition caught :: "js_error \<Rightarrow> string \<Rightarrow> js_error" where
  "caught err fallback = (if is_Error err then err else new_Error fallback)"

text \<open>
  What a query of the store client resolves with: \<^verbatim>\<open>{ data, error }\<close>, either of which
  may be null. A promise that rejects with a value \<open>v\<close> reaches the same \<^verbatim>\<open>catch\<close> block as
  \<^verbatim>\<open>throw supabaseError\<close> does, so it is the response with \<open>supabaseError = Some v\<close>.
\<close>

datatype 'a pg_response = Response (data: "'a option") (supabaseError: "js_error option")

text \<open>
  A query that ends in \<^verbatim>\<open>.single()\<close> resolves with the one row or with an error (also
  when the result is not exactly one row): the client library types its response as the
  union of \<^verbatim>\<open>{ data: row, error: null }\<close> and \<^verbatim>\<open>{ data: null, error }\<close>.
\<close>

datatype 'a pg_single = Single_failure js_error | Single_row 'a

text \<open>
  A delete or update without \<^verbatim>\<open>.select()\<close> resolves with \<^verbatim>\<open>{ error }\<close> only.
  \<open>rows_affected\<close> is the number of rows the store changed; the response does not
  carry it and the client cannot read it.
\<close>

datatype pg_write = Write_result (rows_affected: nat) (write_error: "js_error option")

subsection \<open>Remote calls\<close>

text \<open>The body of a request to the word-pair service, before \<^verbatim>\<open>JSON.stringify\<close>.\<close>

datatype pair_type = synonym | antonym | translation | related | custom

record WordPairInsert =
  ins_word1 :: string
  ins_word2 :: string
  ins_pair_type :: pair_type
  ins_description :: "string option"
  ins_user_id :: string

text \<open>
  \<^verbatim>\<open>updatePayload\<close>: a key that was not assigned is \<open>None\<close>; \<open>description\<close> is
  assigned a string or null, so it is \<open>Some None\<close> for null.
\<close>

record updatePayload =
  upd_word1 :: "string option"
  upd_word2 :: "string option"
  upd_pair_type :: "pair_type option"
  upd_description :: "string option option"

datatype request_body = Insert_body WordPairInsert | Update_body updatePayload

text \<open>
  The endpoints, each a template of the source with its arguments:
  \<^verbatim>\<open>/api/word-pairs?page=${page}&limit=${limit}\<close>, \<^verbatim>\<open>/api/word-pairs\<close> and
  \<^verbatim>\<open>/api/word-pairs/${pairId}\<close>. The URL of a request is the service URL followed by
  the endpoint; the two are kept apart.
\<close>

datatype endpoint = Word_pairs_page int int | Word_pairs | Word_pairs_id string

record http_request =
  http_method :: string
  http_service :: string
  http_endpoint :: endpoint
  http_headers :: "(string \<times> string) list"
  http_body :: "request_body option"

datatype remote_call =
    Select_decks string
  | Select_cards string
  | Select_progress string string
  | Insert_deck string string "string option"
  | Auth_getSession
  | Delete_deck string
  | Insert_card string string string int
  | Delete_card string
  | Update_card string string string string
  | Update_progress string int int string string
  | Insert_progress string string string int int string
  | Select_favorites string
  | Insert_favorite string string
  | Delete_favorite string string
  | Fetch http_request

text \<open>
  The arguments of the constructors, in the order of the source:
  \<^item> \<open>Select_decks user_id\<close>, \<open>Select_cards deck_id\<close>, \<open>Select_progress user_id deck_id\<close>;
  \<^item> \<open>Insert_deck user_id name description\<close>, \<open>Delete_deck id\<close> (with \<^verbatim>\<open>.select()\<close>);
  \<^item> \<open>Insert_card deck_id front back order_index\<close>, \<open>Delete_card id\<close>,
    \<open>Update_card id front back updated_at\<close>;
  \<^item> \<open>Update_progress id correct_count incorrect_count last_reviewed_at updated_at\<close>,
    \<open>Insert_progress user_id card_id deck_id correct_count incorrect_count last_reviewed_at\<close>;
  \<^item> \<open>Select_favorites user_id\<close>, \<open>Insert_favorite user_id word\<close>,
    \<open>Delete_favorite user_id word\<close>;
  \<^item> \<open>Auth_getSession\<close> reads the session from the auth client, \<open>Fetch\<close> is an HTTP request.
\<close>

text \<open>An operation once it has settled.\<close>

record ('s, 'r) settled =
  new_state :: 's
  returned :: 'r
  issued :: "remote_call list"

subsection \<open>The flashcards hook\<close>

record user =
  uid :: string

record FlashcardDeck =
  d_id :: string
  d_name :: string
  d_description :: "string option"
  d_created_at :: string
  d_updated_at :: string
  d_card_count :: "int option"

record FlashcardCard =
  c_id :: string
  c_deck_id :: string
  c_front :: string
  c_back :: string
  c_order_index :: int
  c_created_at :: string
  c_updated_at :: string

record FlashcardProgress =
  p_id :: string
  p_card_id :: string
  p_correct_count :: int
  p_incorrect_count :: int
  p_last_reviewed_at :: "string option"

text \<open>
  A row of \<^verbatim>\<open>flashcard_decks\<close> as the store returns it; \<open>r_flashcard_cards\<close> is the
  embedded \<^verbatim>\<open>flashcard_cards(count)\<close>, a list of counts when the query asked for it.
\<close>

record deck_row =
  r_id :: string
  r_name :: string
  r_description :: "string option"
  r_created_at :: string
  r_updated_at :: string
  r_flashcard_cards :: "int list option"

record flashcards =
  user :: "user option"
  decks :: "FlashcardDeck list"
  cards :: "FlashcardCard list"
  progress :: "string \<rightharpoonup> FlashcardProgress"
  loading :: bool
  error :: "js_error option"

text \<open>\<^verbatim>\<open>data || []\<close>\<close>

definition or_empty :: "'a list option \<Rightarrow> 'a list" where
  "or_empty d = (case d of None \<Rightarrow> [] | Some rows \<Rightarrow> rows)"

text \<open>\<^verbatim>\<open>deck.flashcard_cards?.[0]?.count || 0\<close>\<close>

definition first_count :: "int list option \<Rightarrow> int" where
  "first_count fc = (case fc of None \<Rightarrow> 0 | Some [] \<Rightarrow> 0 | Some (n # _) \<Rightarrow> n)"

definition decksWithCounts :: "deck_row \<Rightarrow> FlashcardDeck" where
  "decksWithCounts deck =
     \<lparr>d_id = r_id deck, d_name = r_name deck, d_description = r_description deck,
      d_created_at = r_created_at deck, d_updated_at = r_updated_at deck,
      d_card_count = Some (first_count (r_flashcard_cards deck))\<rparr>"

definition fetchDecks ::
  "flashcards \<Rightarrow> deck_row list pg_response \<Rightarrow> (flashcards, unit) settled" where
  "fetchDecks st resp =
     (case user st of
        None \<Rightarrow> \<lparr>new_state = st, returned = (), issued = []\<rparr>
      | Some u \<Rightarrow>
          let st1 = st\<lparr>loading := True, error := None\<rparr>;
              st2 = (case supabaseError resp of
                       Some e \<Rightarrow> st1\<lparr>error := Some (caught e ''Failed to fetch decks'')\<rparr>
                     | None \<Rightarrow> st1\<lparr>decks := map decksWithCounts (or_empty (data resp))\<rparr>)
          in \<lparr>new_state = st2\<lparr>loading := False\<rparr>, returned = (),
              issued = [Select_decks (uid u)]\<rparr>)"

definition fetchCards ::
  "flashcards \<Rightarrow> string \<Rightarrow> FlashcardCard list pg_response \<Rightarrow> (flashcards, unit) settled" where
  "fetchCards st deckId resp =
     (let st1 = st\<lparr>loading := True, error := None\<rparr>;
          st2 = (case supabaseError resp of
                   Some e \<Rightarrow> st1\<lparr>error := Some (caught e ''Failed to fetch cards'')\<rparr>
                 | None \<Rightarrow> st1\<lparr>cards := or_empty (data resp)\<rparr>)
      in \<lparr>new_state = st2\<lparr>loading := False\<rparr>, returned = (),
          issued = [Select_cards deckId]\<rparr>)"

text \<open>
  \<^verbatim>\<open>progressMap\<close>: the rows keyed by \<open>card_id\<close>, a later row replacing an earlier one
  of the same card.
\<close>

definition progressMap :: "FlashcardProgress list \<Rightarrow> (string \<rightharpoonup> FlashcardProgress)" where
  "progressMap rows = fold (\<lambda>p m. m(p_card_id p \<mapsto> p)) rows Map.empty"

text \<open>The \<^verbatim>\<open>catch\<close> block of \<open>fetchProgress\<close> only logs: no state is set on failure.\<close>

definition fetchProgress ::
  "flashcards \<Rightarrow> string \<Rightarrow> FlashcardProgress list pg_response \<Rightarrow> (flashcards, unit) settled" where
  "fetchProgress st deckId resp =
     (case user st of
        None \<Rightarrow> \<lparr>new_state = st, returned = (), issued = []\<rparr>
      | Some u \<Rightarrow>
          \<lparr>new_state = (case supabaseError resp of
                          Some e \<Rightarrow> st
                        | None \<Rightarrow> st\<lparr>progress := progressMap (or_empty (data resp))\<rparr>),
           returned = (), issued = [Select_progress (uid u) deckId]\<rparr>)"

text \<open>The \<^verbatim>\<open>newDeck\<close> that \<open>createDeck\<close> builds from the inserted row.\<close>

definition newDeck :: "deck_row \<Rightarrow> FlashcardDeck" where
  "newDeck row =
     \<lparr>d_id = r_id row, d_name = r_name row, d_description = r_description row,
      d_created_at = r_created_at row, d_updated_at = r_updated_at row,
      d_card_count = Some 0\<rparr>"

definition createDeck ::
  "flashcards \<Rightarrow> string \<Rightarrow> string option \<Rightarrow> deck_row pg_single
     \<Rightarrow> (flashcards, FlashcardDeck option) settled" where
  "createDeck st name description resp =
     (case user st of
        None \<Rightarrow> \<lparr>new_state = st, returned = None, issued = []\<rparr>
      | Some u \<Rightarrow>
          (case resp of
             Single_failure e \<Rightarrow>
               \<lparr>new_state = st\<lparr>error := Some (caught e ''Failed to create deck'')\<rparr>,
                returned = None, issued = [Insert_deck (uid u) name description]\<rparr>
           | Single_row row \<Rightarrow>
               \<lparr>new_state = st\<lparr>decks := newDeck row # decks st\<rparr>,
                returned = Some (newDeck row),
                issued = [Insert_deck (uid u) name description]\<rparr>))"

text \<open>
  \<open>deleteDeck\<close> asks the auth client for the session first and only logs the answer,
  then deletes with \<^verbatim>\<open>.select()\<close>, so that \<^verbatim>\<open>data\<close> is the list of deleted rows.
\<close>

definition deleteDeck ::
  "flashcards \<Rightarrow> string \<Rightarrow> deck_row list pg_response \<Rightarrow> (flashcards, bool) settled" where
  "deleteDeck st deckId resp =
     (case user st of
        None \<Rightarrow> \<lparr>new_state = st\<lparr>error := Some (new_Error ''User not authenticated'')\<rparr>,
                 returned = False, issued = []\<rparr>
      | Some u \<Rightarrow>
          let calls = [Auth_getSession, Delete_deck deckId]
          in (case supabaseError resp of
                Some e \<Rightarrow> \<lparr>new_state = st\<lparr>error := Some (caught e ''Failed to delete deck'')\<rparr>,
                           returned = False, issued = calls\<rparr>
              | None \<Rightarrow>
                  if data resp = None \<or> length (or_empty (data resp)) = 0
                  then \<lparr>new_state = st\<lparr>error := Some (new_Error
                          ''Deck not found or you don't have permission to delete it'')\<rparr>,
                        returned = False, issued = calls\<rparr>
                  else \<lparr>new_state = st\<lparr>decks := filter (\<lambda>d. d_id d \<noteq> deckId) (decks st)\<rparr>,
                        returned = True, issued = calls\<rparr>))"

text \<open>The card operations do not read \<open>user\<close>.\<close>

definition addCard ::
  "flashcards \<Rightarrow> string \<Rightarrow> string \<Rightarrow> string \<Rightarrow> FlashcardCard pg_single
     \<Rightarrow> (flashcards, FlashcardCard option) settled" where
  "addCard st deckId front back resp =
     (let calls = [Insert_card deckId front back (int (length (cards st)))]
      in (case resp of
            Single_failure e \<Rightarrow>
              \<lparr>new_state = st\<lparr>error := Some (caught e ''Failed to add card'')\<rparr>,
               returned = None, issued = calls\<rparr>
          | Single_row row \<Rightarrow>
              \<lparr>new_state = st\<lparr>cards := cards st @ [row]\<rparr>,
               returned = Some row, issued = calls\<rparr>))"

definition deleteCard ::
  "flashcards \<Rightarrow> string \<Rightarrow> pg_write \<Rightarrow> (flashcards, bool) settled" where
  "deleteCard st cardId resp =
     (case write_error resp of
        Some e \<Rightarrow> \<lparr>new_state = st\<lparr>error := Some (caught e ''Failed to delete card'')\<rparr>,
                   returned = False, issued = [Delete_card cardId]\<rparr>
      | None \<Rightarrow> \<lparr>new_state = st\<lparr>cards := filter (\<lambda>c. c_id c \<noteq> cardId) (cards st)\<rparr>,
                 returned = True, issued = [Delete_card cardId]\<rparr>)"

definition updateCard ::
  "flashcards \<Rightarrow> string \<Rightarrow> string \<Rightarrow> string \<Rightarrow> string \<Rightarrow> FlashcardCard pg_single
     \<Rightarrow> (flashcards, FlashcardCard option) settled" where
  "updateCard st cardId front back now resp =
     (let calls = [Update_card cardId front back now]
      in (case resp of
            Single_failure e \<Rightarrow>
              \<lparr>new_state = st\<lparr>error := Some (caught e ''Failed to update card'')\<rparr>,
               returned = None, issued = calls\<rparr>
          | Single_row row \<Rightarrow>
              \<lparr>new_state = st\<lparr>cards := map (\<lambda>c. if c_id c = cardId then row else c) (cards st)\<rparr>,
               returned = Some row, issued = calls\<rparr>))"

text \<open>
  \<open>recordProgress\<close> writes first (\<open>now1\<close> and \<open>now2\<close> are the two readings of the
  clock in the update, of which the insert takes the first only) and then awaits
  \<open>fetchProgress\<close>, which never rejects. Its \<^verbatim>\<open>catch\<close> block only logs.
\<close>

definition progress_write :: "user \<Rightarrow> FlashcardProgress option \<Rightarrow> string \<Rightarrow> string
     \<Rightarrow> bool \<Rightarrow> string \<Rightarrow> string \<Rightarrow> remote_call" where
  "progress_write u existing cardId deckId correct now1 now2 =
     (case existing of
        Some e \<Rightarrow>
          Update_progress (p_id e)
            (p_correct_count e + (if correct then 1 else 0))
            (p_incorrect_count e + (if correct then 0 else 1))
            now1 now2
      | None \<Rightarrow>
          Insert_progress (uid u) cardId deckId
            (if correct then 1 else 0) (if correct then 0 else 1) now1)"

definition recordProgress ::
  "flashcards \<Rightarrow> string \<Rightarrow> string \<Rightarrow> bool \<Rightarrow> string \<Rightarrow> string \<Rightarrow> pg_write
     \<Rightarrow> FlashcardProgress list pg_response \<Rightarrow> (flashcards, bool) settled" where
  "recordProgress st cardId deckId correct now1 now2 written fetched =
     (case user st of
        None \<Rightarrow> \<lparr>new_state = st, returned = False, issued = []\<rparr>
      | Some u \<Rightarrow>
          let write = progress_write u (progress st cardId) cardId deckId correct now1 now2
          in (case write_error written of
                Some e \<Rightarrow> \<lparr>new_state = st, returned = False, issued = [write]\<rparr>
              | None \<Rightarrow>
                  let refetch = fetchProgress st deckId fetched
                  in \<lparr>new_state = new_state refetch, returned = True,
                      issued = write # issued refetch\<rparr>))"

subsection \<open>Strings\<close>

text \<open>
  A \<open>string\<close> is read as a sequence of code units below 256 (Latin-1), where
  \<^verbatim>\<open>trim\<close> removes the white space and line terminators U+0009 to U+000D, U+0020 and
  U+00A0 from both ends, and \<^verbatim>\<open>toLowerCase\<close> maps A to Z and the capital letters
  U+00C0 to U+00DE (but not the multiplication sign U+00D7) 32 places up.
\<close>

definition is_white_space :: "char \<Rightarrow> bool" where
  "is_white_space c =
     (let n = (of_char c :: nat) in (9 \<le> n \<and> n \<le> 13) \<or> n = 32 \<or> n = 160)"

definition trim :: "string \<Rightarrow> string" where
  "trim s = rev (dropWhile is_white_space (rev (dropWhile is_white_space s)))"

definition lower_char :: "char \<Rightarrow> char" where
  "lower_char c =
     (let n = (of_char c :: nat)
      in if (65 \<le> n \<and> n \<le> 90) \<or> (192 \<le> n \<and> n \<le> 222 \<and> n \<noteq> 215)
         then char_of (n + 32) else c)"

definition toLowerCase :: "string \<Rightarrow> string" where
  "toLowerCase s = map lower_char s"

text \<open>
  \<^verbatim>\<open>[...new Set(xs)]\<close>: a set keeps its elements in the order of their first insertion.
\<close>

definition Set_add :: "'a \<Rightarrow> 'a list \<Rightarrow> 'a list" where
  "Set_add x acc = (if x \<in> set acc then acc else acc @ [x])"

definition Set_spread :: "'a list \<Rightarrow> 'a list" where
  "Set_spread xs = fold Set_add xs []"

subsection \<open>The favorite-words hook\<close>

record favoriteWords =
  fav_user :: "user option"
  favorites :: "string list"
  fav_loading :: bool
  fav_error :: "js_error option"

text \<open>A row of the \<^verbatim>\<open>select('word')\<close> query.\<close>

record favorite_row =
  word :: string

definition fetchFavorites ::
  "favoriteWords \<Rightarrow> favorite_row list pg_response \<Rightarrow> (favoriteWords, unit) settled" where
  "fetchFavorites st resp =
     (case fav_user st of
        None \<Rightarrow> \<lparr>new_state = st, returned = (), issued = []\<rparr>
      | Some u \<Rightarrow>
          let st1 = st\<lparr>fav_loading := True, fav_error := None\<rparr>;
              st2 = (case supabaseError resp of
                       Some e \<Rightarrow> st1\<lparr>fav_error := Some (caught e ''Failed to fetch favorites'')\<rparr>
                     | None \<Rightarrow> st1\<lparr>favorites := map word (or_empty (data resp))\<rparr>)
          in \<lparr>new_state = st2\<lparr>fav_loading := False\<rparr>, returned = (),
              issued = [Select_favorites (uid u)]\<rparr>)"

definition addFavorite ::
  "favoriteWords \<Rightarrow> string \<Rightarrow> pg_write \<Rightarrow> (favoriteWords, bool) settled" where
  "addFavorite st w resp =
     (case fav_user st of
        None \<Rightarrow> \<lparr>new_state = st, returned = False, issued = []\<rparr>
      | Some u \<Rightarrow>
          let calls = [Insert_favorite (uid u) (toLowerCase (trim w))]
          in (case write_error resp of
                Some e \<Rightarrow>
                  if code e = Some ''23505''
                  then \<lparr>new_state = st\<lparr>favorites :=
                                          Set_spread (favorites st @ [toLowerCase (trim w)])\<rparr>,
                        returned = True, issued = calls\<rparr>
                  else \<lparr>new_state = st\<lparr>fav_error := Some (caught e ''Failed to add favorite'')\<rparr>,
                        returned = False, issued = calls\<rparr>
              | None \<Rightarrow>
                  \<lparr>new_state = st\<lparr>favorites :=
                                    Set_spread (toLowerCase (trim w) # favorites st)\<rparr>,
                   returned = True, issued = calls\<rparr>))"

definition removeFavorite ::
  "favoriteWords \<Rightarrow> string \<Rightarrow> pg_write \<Rightarrow> (favoriteWords, bool) settled" where
  "removeFavorite st w resp =
     (case fav_user st of
        None \<Rightarrow> \<lparr>new_state = st, returned = False, issued = []\<rparr>
      | Some u \<Rightarrow>
          let calls = [Delete_favorite (uid u) (toLowerCase (trim w))]
          in (case write_error resp of
                Some e \<Rightarrow>
                  \<lparr>new_state = st\<lparr>fav_error := Some (caught e ''Failed to remove favorite'')\<rparr>,
                   returned = False, issued = calls\<rparr>
              | None \<Rightarrow>
                  \<lparr>new_state = st\<lparr>favorites :=
                                    filter (\<lambda>x. x \<noteq> toLowerCase (trim w)) (favorites st)\<rparr>,
                   returned = True, issued = calls\<rparr>))"

definition isFavorite :: "favoriteWords \<Rightarrow> string \<Rightarrow> bool" where
  "isFavorite st w = (toLowerCase (trim w) \<in> set (favorites st))"

subsection \<open>The authenticated request helper\<close>

record session =
  access_token :: string

text \<open>
  A JSON value. A number is kept as the string that \<^verbatim>\<open>ToString\<close> gives for it, and it is
  zero exactly when that string is \<^verbatim>\<open>0\<close>; an object keeps its members in the order of the
  text, of which \<^verbatim>\<open>JSON.parse\<close> lets the last one of a name win.
\<close>

datatype json_value =
    J_null
  | J_bool bool
  | J_number string
  | J_string string
  | J_array "json_value list"
  | J_object "(string \<times> json_value) list"

text \<open>
  \<^verbatim>\<open>ToString\<close>, which \<^verbatim>\<open>new Error(value)\<close> applies to its argument: an array is its
  elements joined by commas, a null element giving the empty string; an object is
  \<^verbatim>\<open>[object Object]\<close>, unless it has a member named \<^verbatim>\<open>toString\<close>, which hides the
  inherited method and is not a function, so that the conversion raises a
  \<^verbatim>\<open>TypeError\<close> (the text of its message is the engine's, here that of V8). The result is
  \<open>Inl\<close> of what is raised or \<open>Inr\<close> of the string.
\<close>

definition TypeError_primitive :: js_error where
  "TypeError_primitive = new_Error ''Cannot convert object to primitive value''"

fun ToString :: "json_value \<Rightarrow> js_error + string"
  and join :: "json_value list \<Rightarrow> js_error + string" where
  "ToString J_null = Inr ''null''"
| "ToString (J_bool b) = Inr (if b then ''true'' else ''false'')"
| "ToString (J_number text) = Inr text"
| "ToString (J_string s) = Inr s"
| "ToString (J_array elements) = join elements"
| "ToString (J_object members) =
     (if ''toString'' \<in> fst ` set members then Inl TypeError_primitive
      else Inr ''[object Object]'')"
| "join [] = Inr []"
| "join (x # xs) =
     (case (if x = J_null then Inr [] else ToString x) of
        Inl raised \<Rightarrow> Inl raised
      | Inr s \<Rightarrow>
          if xs = [] then Inr s
          else (case join xs of
                  Inl raised \<Rightarrow> Inl raised
                | Inr rest \<Rightarrow> Inr (s @ '','' @ rest)))"

text \<open>Whether a value counts as true in \<^verbatim>\<open>value || fallback\<close>.\<close>

fun truthy :: "json_value \<Rightarrow> bool" where
  "truthy J_null = False"
| "truthy (J_bool b) = b"
| "truthy (J_number text) = (text \<noteq> ''0'')"
| "truthy (J_string s) = (s \<noteq> [])"
| "truthy (J_array elements) = True"
| "truthy (J_object members) = True"

text \<open>
  Reading a property of null raises a \<^verbatim>\<open>TypeError\<close>; the text of its message is the
  engine's, here that of V8.
\<close>

definition TypeError_null :: js_error where
  "TypeError_null = new_Error ''Cannot read properties of null (reading 'error')''"

text \<open>
  \<^verbatim>\<open>errorData.error\<close>: on null it raises, on an object it is the member of that name
  (\<open>None\<close> for undefined when there is none), and a boolean, number, string or array has
  no such property.
\<close>

fun error_of :: "json_value \<Rightarrow> js_error + json_value option" where
  "error_of J_null = Inl TypeError_null"
| "error_of (J_object members) = Inr (map_of (rev members) ''error'')"
| "error_of (J_bool b) = Inr None"
| "error_of (J_number text) = Inr None"
| "error_of (J_string s) = Inr None"
| "error_of (J_array elements) = Inr None"

text \<open>
  \<^verbatim>\<open>response.json()\<close> rejects when the body is not JSON, and otherwise resolves with the
  parsed value: \<open>parsed\<close> is that value and \<open>as_T\<close> is the same value at the type \<open>T\<close> that
  the caller names, which the helper returns on a success status without looking at it.
  On a success status the body is taken to be a value of \<open>T\<close>, as the caller asserts; on
  any other status it is any JSON value.
\<close>

datatype 'a json_result =
  Json_rejects js_error | Json_resolves (parsed: json_value) (as_T: 'a)

record 'a http_response =
  ok :: bool
  statusText :: string
  json :: "'a json_result"

datatype 'a fetched = Fetch_rejects js_error | Fetch_resolves "'a http_response"

text \<open>\<^verbatim>\<open>import.meta.env.VITE_AI_SERVICE_URL || 'http://localhost:8000'\<close>\<close>

definition AI_SERVICE_URL :: "string option \<Rightarrow> string" where
  "AI_SERVICE_URL env =
     (case env of
        None \<Rightarrow> ''http://localhost:8000''
      | Some url \<Rightarrow> if url = [] then ''http://localhost:8000'' else url)"

text \<open>
  The message of the error that is thrown,
  \<^verbatim>\<open>errorData.error || `Request failed: ${response.statusText}`\<close> converted to a string
  by \<^verbatim>\<open>new Error\<close>, or what that conversion raises.
\<close>

definition error_message :: "json_value option \<Rightarrow> string \<Rightarrow> js_error + string" where
  "error_message err status_text =
     (case err of
        None \<Rightarrow> Inr (''Request failed: '' @ status_text)
      | Some v \<Rightarrow> if truthy v then ToString v else Inr (''Request failed: '' @ status_text))"

text \<open>\<^verbatim>\<open>throw new Error(message)\<close>\<close>

definition throw_new_Error :: "js_error + string \<Rightarrow> js_error" where
  "throw_new_Error msg = (case msg of Inl raised \<Rightarrow> raised | Inr text \<Rightarrow> new_Error text)"

text \<open>
  The helper yields \<open>Inl\<close> of the value it throws or \<open>Inr\<close> of the value it returns,
  with the calls it issued: the session is asked for first, and the request is sent only
  when there is one. On a status that is not a success, a body that is not JSON is replaced
  by \<^verbatim>\<open>{ error: 'Unknown error' }\<close>.
\<close>

definition makeAuthenticatedRequest ::
  "string option \<Rightarrow> string \<Rightarrow> endpoint \<Rightarrow> request_body option \<Rightarrow> session option \<Rightarrow> 'a fetched
     \<Rightarrow> (js_error + 'a) \<times> remote_call list" where
  "makeAuthenticatedRequest env method endpoint body sess fetched =
     (case sess of
        None \<Rightarrow> (Inl (new_Error ''User must be authenticated''), [Auth_getSession])
      | Some s \<Rightarrow>
          let calls = [Auth_getSession,
                       Fetch \<lparr>http_method = method, http_service = AI_SERVICE_URL env,
                              http_endpoint = endpoint,
                              http_headers = [(''Content-Type'', ''application/json''),
                                              (''Authorization'', ''Bearer '' @ access_token s)],
                              http_body = body\<rparr>]
          in (case fetched of
                Fetch_rejects e \<Rightarrow> (Inl e, calls)
              | Fetch_resolves response \<Rightarrow>
                  if \<not> ok response
                  then (case json response of
                          Json_rejects _ \<Rightarrow>
                            (Inl (throw_new_Error
                                    (error_message (Some (J_string ''Unknown error''))
                                       (statusText response))), calls)
                        | Json_resolves errorData _ \<Rightarrow>
                            (case error_of errorData of
                               Inl type_error \<Rightarrow> (Inl type_error, calls)
                             | Inr err \<Rightarrow>
                                 (Inl (throw_new_Error
                                         (error_message err (statusText response))), calls)))
                  else (case json response of
                          Json_rejects e \<Rightarrow> (Inl e, calls)
                        | Json_resolves _ v \<Rightarrow> (Inr v, calls))))"

subsection \<open>The word-pairs hook\<close>

record WordPair =
  wp_id :: string
  wp_user_id :: string
  wp_word1 :: string
  wp_word2 :: string
  wp_pair_type :: pair_type
  wp_description :: "string option"
  wp_created_at :: string
  wp_updated_at :: string

record WordPairsResponse =
  resp_data :: "WordPair list"
  resp_count :: int
  resp_page :: int
  resp_limit :: int

record pagination_info =
  page :: int
  limit :: int
  total :: int

record UseWordPairsState =
  pairs :: "WordPair list"
  wp_loading :: bool
  wp_error :: "string option"
  pagination :: pagination_info

definition initial_state :: UseWordPairsState where
  "initial_state =
     \<lparr>pairs = [], wp_loading = False, wp_error = None,
      pagination = \<lparr>page = 1, limit = 20, total = 0\<rparr>\<rparr>"

text \<open>\<^verbatim>\<open>err instanceof Error ? err.message : fallback\<close>\<close>

definition message_of :: "js_error \<Rightarrow> string \<Rightarrow> string" where
  "message_of err fallback = (if is_Error err then message err else fallback)"

text \<open>
  Every operation of this hook first sets \<open>loading\<close> and clears \<open>error\<close> (the state
  \<open>prev\<close> below), and updates that state when the request has settled. An argument with
  a default is an option, \<open>None\<close> when the caller leaves it out. Numbers are integers.
\<close>

definition fetchWordPairs ::
  "string option \<Rightarrow> UseWordPairsState \<Rightarrow> int option \<Rightarrow> int option \<Rightarrow> session option
     \<Rightarrow> WordPairsResponse fetched \<Rightarrow> (UseWordPairsState, js_error + unit) settled" where
  "fetchWordPairs env st page_arg limit_arg sess fetched =
     (let prev = st\<lparr>wp_loading := True, wp_error := None\<rparr>;
          p = (case page_arg of None \<Rightarrow> 1 | Some n \<Rightarrow> n);
          l = (case limit_arg of None \<Rightarrow> 20 | Some n \<Rightarrow> n);
          (outcome, calls) =
             makeAuthenticatedRequest env ''GET'' (Word_pairs_page p l) None sess fetched
      in (case outcome of
            Inr response \<Rightarrow>
              \<lparr>new_state = prev\<lparr>pairs := resp_data response, wp_loading := False,
                                 pagination := \<lparr>page = resp_page response,
                                                limit = resp_limit response,
                                                total = resp_count response\<rparr>\<rparr>,
               returned = Inr (), issued = calls\<rparr>
          | Inl err \<Rightarrow>
              \<lparr>new_state = prev\<lparr>wp_error := Some (message_of err ''Failed to fetch word pairs''),
                                 wp_loading := False\<rparr>,
               returned = Inr (), issued = calls\<rparr>))"

text \<open>\<^verbatim>\<open>description?.trim() || null\<close>\<close>

definition trim_or_null :: "string option \<Rightarrow> string option" where
  "trim_or_null d =
     (case d of None \<Rightarrow> None | Some x \<Rightarrow> if trim x = [] then None else Some (trim x))"

definition createWordPair ::
  "string option \<Rightarrow> UseWordPairsState \<Rightarrow> string \<Rightarrow> string \<Rightarrow> pair_type option \<Rightarrow> string option
     \<Rightarrow> session option \<Rightarrow> WordPair fetched \<Rightarrow> (UseWordPairsState, js_error + WordPair) settled" where
  "createWordPair env st word1 word2 pairType description sess fetched =
     (let prev = st\<lparr>wp_loading := True, wp_error := None\<rparr>;
          payload = \<lparr>ins_word1 = trim word1, ins_word2 = trim word2,
                     ins_pair_type = (case pairType of None \<Rightarrow> custom | Some t \<Rightarrow> t),
                     ins_description = trim_or_null description,
                     ins_user_id = []\<rparr>;
          (outcome, calls) =
             makeAuthenticatedRequest env ''POST'' Word_pairs (Some (Insert_body payload))
               sess fetched
      in (case outcome of
            Inr newPair \<Rightarrow>
              \<lparr>new_state = prev\<lparr>pairs := newPair # pairs prev, wp_loading := False,
                                 pagination := (pagination prev)
                                                 \<lparr>total := total (pagination prev) + 1\<rparr>\<rparr>,
               returned = Inr newPair, issued = calls\<rparr>
          | Inl err \<Rightarrow>
              \<lparr>new_state = prev\<lparr>wp_error := Some (message_of err ''Failed to create word pair''),
                                 wp_loading := False\<rparr>,
               returned = Inl err, issued = calls\<rparr>))"

text \<open>
  The \<^verbatim>\<open>updates\<close> argument: a key that is absent is \<open>None\<close>; \<open>description\<close> may be
  present with the value null or undefined, which is \<open>Some None\<close>.
\<close>

record WordPairUpdates =
  u_word1 :: "string option"
  u_word2 :: "string option"
  u_pair_type :: "pair_type option"
  u_description :: "string option option"

text \<open>\<^verbatim>\<open>if (updates.word1) updatePayload.word1 = updates.word1.trim()\<close>\<close>

definition trimmed_if_truthy :: "string option \<Rightarrow> string option" where
  "trimmed_if_truthy w =
     (case w of None \<Rightarrow> None | Some x \<Rightarrow> if x = [] then None else Some (trim x))"

definition make_updatePayload :: "WordPairUpdates \<Rightarrow> updatePayload" where
  "make_updatePayload updates =
     \<lparr>upd_word1 = trimmed_if_truthy (u_word1 updates),
      upd_word2 = trimmed_if_truthy (u_word2 updates),
      upd_pair_type = u_pair_type updates,
      upd_description = (case u_description updates of
                           None \<Rightarrow> None
                         | Some d \<Rightarrow> Some (trim_or_null d))\<rparr>"

definition updateWordPair ::
  "string option \<Rightarrow> UseWordPairsState \<Rightarrow> string \<Rightarrow> WordPairUpdates \<Rightarrow> session option
     \<Rightarrow> WordPair fetched \<Rightarrow> (UseWordPairsState, js_error + WordPair) settled" where
  "updateWordPair env st pairId updates sess fetched =
     (let prev = st\<lparr>wp_loading := True, wp_error := None\<rparr>;
          (outcome, calls) =
             makeAuthenticatedRequest env ''PUT'' (Word_pairs_id pairId)
               (Some (Update_body (make_updatePayload updates))) sess fetched
      in (case outcome of
            Inr updatedPair \<Rightarrow>
              \<lparr>new_state = prev\<lparr>pairs := map (\<lambda>p. if wp_id p = pairId then updatedPair else p)
                                               (pairs prev),
                                 wp_loading := False\<rparr>,
               returned = Inr updatedPair, issued = calls\<rparr>
          | Inl err \<Rightarrow>
              \<lparr>new_state = prev\<lparr>wp_error := Some (message_of err ''Failed to update word pair''),
                                 wp_loading := False\<rparr>,
               returned = Inl err, issued = calls\<rparr>))"

definition deleteWordPair ::
  "string option \<Rightarrow> UseWordPairsState \<Rightarrow> string \<Rightarrow> session option \<Rightarrow> unit fetched
     \<Rightarrow> (UseWordPairsState, js_error + unit) settled" where
  "deleteWordPair env st pairId sess fetched =
     (let prev = st\<lparr>wp_loading := True, wp_error := None\<rparr>;
          (outcome, calls) =
             makeAuthenticatedRequest env ''DELETE'' (Word_pairs_id pairId) None sess fetched
      in (case outcome of
            Inr _ \<Rightarrow>
              \<lparr>new_state = prev\<lparr>pairs := filter (\<lambda>p. wp_id p \<noteq> pairId) (pairs prev),
                                 wp_loading := False,
                                 pagination := (pagination prev)
                                                 \<lparr>total := max 0 (total (pagination prev) - 1)\<rparr>\<rparr>,
               returned = Inr (), issued = calls\<rparr>
          | Inl err \<Rightarrow>
              \<lparr>new_state = prev\<lparr>wp_error := Some (message_of err ''Failed to delete word pair''),
                                 wp_loading := False\<rparr>,
               returned = Inl err, issued = calls\<rparr>))"

subsection \<open>The progress table\<close>

text \<open>
  The table \<^verbatim>\<open>flashcard_progress\<close> of the migration, as far as \<open>recordProgress\<close> and
  \<open>fetchProgress\<close> reach it: its rows, the uniqueness of \<^verbatim>\<open>(user_id, card_id)\<close>, and the
  row-level policies, under which a user inserts, updates and sees rows of their own only.
  \<open>auth_uid\<close> is the user the requests are authenticated as, \<open>new_id\<close> the identifier
  that \<^verbatim>\<open>gen_random_uuid()\<close> gives to an inserted row.
\<close>

record progress_row =
  row_id :: string
  row_user_id :: string
  row_card_id :: string
  row_deck_id :: string
  row_correct_count :: int
  row_incorrect_count :: int
  row_last_reviewed_at :: "string option"

definition unique_violation :: js_error where
  "unique_violation =
     \<lparr>message = ''duplicate key value violates unique constraint'',
      code = Some ''23505'', is_Error = False\<rparr>"

definition policy_violation :: js_error where
  "policy_violation =
     \<lparr>message = ''new row violates row-level security policy'',
      code = Some ''42501'', is_Error = False\<rparr>"

definition apply_update :: "string \<Rightarrow> string \<Rightarrow> int \<Rightarrow> int \<Rightarrow> string \<Rightarrow> progress_row \<Rightarrow> progress_row" where
  "apply_update auth_uid rid correct incorrect reviewed r =
     (if row_id r = rid \<and> row_user_id r = auth_uid
      then r\<lparr>row_correct_count := correct, row_incorrect_count := incorrect,
             row_last_reviewed_at := Some reviewed\<rparr>
      else r)"

text \<open>A write of \<open>recordProgress\<close> against the table; any other call leaves it as it is.\<close>

fun store_write ::
  "string \<Rightarrow> string \<Rightarrow> remote_call \<Rightarrow> progress_row list \<Rightarrow> pg_write \<times> progress_row list" where
  "store_write auth_uid new_id (Insert_progress user_id card_id deck_id correct incorrect reviewed) tbl =
     (if user_id \<noteq> auth_uid then (Write_result 0 (Some policy_violation), tbl)
      else if \<exists>r \<in> set tbl. row_user_id r = user_id \<and> row_card_id r = card_id
      then (Write_result 0 (Some unique_violation), tbl)
      else (Write_result 1 None,
            tbl @ [\<lparr>row_id = new_id, row_user_id = user_id, row_card_id = card_id,
                    row_deck_id = deck_id, row_correct_count = correct,
                    row_incorrect_count = incorrect,
                    row_last_reviewed_at = Some reviewed\<rparr>]))"
| "store_write auth_uid new_id (Update_progress rid correct incorrect reviewed updated) tbl =
     (Write_result (length (filter (\<lambda>r. row_id r = rid \<and> row_user_id r = auth_uid) tbl)) None,
      map (apply_update auth_uid rid correct incorrect reviewed) tbl)"
| "store_write auth_uid new_id _ tbl = (Write_result 0 None, tbl)"

text \<open>The row as the client reads it: the fields of \<^verbatim>\<open>FlashcardProgress\<close>.\<close>

definition as_FlashcardProgress :: "progress_row \<Rightarrow> FlashcardProgress" where
  "as_FlashcardProgress r =
     \<lparr>p_id = row_id r, p_card_id = row_card_id r, p_correct_count = row_correct_count r,
      p_incorrect_count = row_incorrect_count r,
      p_last_reviewed_at = row_last_reviewed_at r\<rparr>"

definition store_select ::
  "string \<Rightarrow> string \<Rightarrow> string \<Rightarrow> progress_row list \<Rightarrow> FlashcardProgress list pg_response" where
  "store_select auth_uid user_id deck_id tbl =
     Response
       (Some (map as_FlashcardProgress
                (filter (\<lambda>r. row_user_id r = auth_uid \<and> row_user_id r = user_id
                               \<and> row_deck_id r = deck_id) tbl)))
       None"

text \<open>
  \<open>recordProgress\<close> with its two calls answered by the table, the requests authenticated
  as the user of the hook. Without a user no call is issued and the table is not reached.
\<close>

definition recordProgress_served ::
  "string \<Rightarrow> progress_row list \<Rightarrow> flashcards \<Rightarrow> string \<Rightarrow> string \<Rightarrow> bool \<Rightarrow> string \<Rightarrow> string
     \<Rightarrow> (flashcards, bool) settled \<times> progress_row list" where
  "recordProgress_served new_id tbl st cardId deckId correct now1 now2 =
     (case user st of
        None \<Rightarrow>
          (recordProgress st cardId deckId correct now1 now2
             (Write_result 0 None) (Response None None), tbl)
      | Some u \<Rightarrow>
          let (written, tbl1) =
                store_write (uid u) new_id
                  (progress_write u (progress st cardId) cardId deckId correct now1 now2) tbl;
              fetched = store_select (uid u) (uid u) deckId tbl1
          in (recordProgress st cardId deckId correct now1 now2 written fetched, tbl1))"

text \<open>Several \<open>addFavorite\<close> one after the other, each on the state the one before left.\<close>

fun addFavorite_each :: "favoriteWords \<Rightarrow> (string \<times> pg_write) list \<Rightarrow> favoriteWords" where
  "addFavorite_each st [] = st"
| "addFavorite_each st ((w, resp) # rest) =
     addFavorite_each (new_state (addFavorite st w resp)) rest"

text \<open>An insert that the store accepted, or rejected for the uniqueness constraint.\<close>

definition stored_or_duplicate :: "pg_write \<Rightarrow> bool" where
  "stored_or_duplicate resp =
     (case write_error resp of None \<Rightarrow> True | Some e \<Rightarrow> code e = Some ''23505'')"

subsection \<open>The favorite-words table\<close>

text \<open>
  The table \<^verbatim>\<open>favorite_words\<close> of the migration, as far as \<open>addFavorite\<close> and
  \<open>removeFavorite\<close> reach it: its rows, the uniqueness of \<^verbatim>\<open>(user_id, word)\<close>, and the
  row-level policy, under which a user reaches rows of their own only. \<open>auth_uid\<close> is the
  user the requests are authenticated as.
\<close>

record favorite_word_row =
  fw_user_id :: string
  fw_word :: string

fun favorites_write ::
  "string \<Rightarrow> remote_call \<Rightarrow> favorite_word_row list \<Rightarrow> pg_write \<times> favorite_word_row list" where
  "favorites_write auth_uid (Insert_favorite user_id w) tbl =
     (if user_id \<noteq> auth_uid then (Write_result 0 (Some policy_violation), tbl)
      else if \<exists>r \<in> set tbl. fw_user_id r = user_id \<and> fw_word r = w
      then (Write_result 0 (Some unique_violation), tbl)
      else (Write_result 1 None, tbl @ [\<lparr>fw_user_id = user_id, fw_word = w\<rparr>]))"
| "favorites_write auth_uid (Delete_favorite user_id w) tbl =
     (Write_result
        (length (filter (\<lambda>r. fw_user_id r = auth_uid \<and> fw_user_id r = user_id \<and> fw_word r = w)
                   tbl))
        None,
      filter (\<lambda>r. \<not> (fw_user_id r = auth_uid \<and> fw_user_id r = user_id \<and> fw_word r = w)) tbl)"
| "favorites_write auth_uid _ tbl = (Write_result 0 None, tbl)"

text \<open>
  \<open>addFavorite\<close> with its insert answered by the table, the request authenticated as the
  user of the hook, and several of them one after the other. Without a user no call is
  issued and the table is not reached.
\<close>

definition addFavorite_served ::
  "favorite_word_row list \<Rightarrow> favoriteWords \<Rightarrow> string
     \<Rightarrow> (favoriteWords, bool) settled \<times> favorite_word_row list" where
  "addFavorite_served tbl st w =
     (case fav_user st of
        None \<Rightarrow> (addFavorite st w (Write_result 0 None), tbl)
      | Some u \<Rightarrow>
          let (resp, tbl1) =
                favorites_write (uid u) (Insert_favorite (uid u) (toLowerCase (trim w))) tbl
          in (addFavorite st w resp, tbl1))"

fun addFavorite_each_served ::
  "favorite_word_row list \<Rightarrow> favoriteWords \<Rightarrow> string list
     \<Rightarrow> favoriteWords \<times> favorite_word_row list" where
  "addFavorite_each_served tbl st [] = (st, tbl)"
| "addFavorite_each_served tbl st (w # rest) =
     addFavorite_each_served (snd (addFavorite_served tbl st w))
       (new_state (fst (addFavorite_served tbl st w))) rest"

subsection \<open>Example states\<close>

definition ex_user :: user where
  "ex_user = \<lparr>uid = ''u1''\<rparr>"

definition ex_deck :: FlashcardDeck where
  "ex_deck = \<lparr>d_id = ''d1'', d_name = ''Spanish 101'', d_description = Some ''A'',
              d_created_at = ''2026-02-05T10:00:00Z'', d_updated_at = ''2026-02-05T10:00:00Z'',
              d_card_count = Some 2\<rparr>"

definition ex_card1 :: FlashcardCard where
  "ex_card1 = \<lparr>c_id = ''c1'', c_deck_id = ''d1'', c_front = ''hola'', c_back = ''hello'',
               c_order_index = 0, c_created_at = ''2026-02-05T10:01:00Z'',
               c_updated_at = ''2026-02-05T10:01:00Z''\<rparr>"

definition ex_card2 :: FlashcardCard where
  "ex_card2 = \<lparr>c_id = ''c2'', c_deck_id = ''d1'', c_front = ''adios'', c_back = ''bye'',
               c_order_index = 1, c_created_at = ''2026-02-05T10:02:00Z'',
               c_updated_at = ''2026-02-05T10:02:00Z''\<rparr>"

definition ex_card3 :: FlashcardCard where
  "ex_card3 = \<lparr>c_id = ''c3'', c_deck_id = ''d1'', c_front = ''gracias'', c_back = ''thanks'',
               c_order_index = 2, c_created_at = ''2026-02-05T10:03:00Z'',
               c_updated_at = ''2026-02-05T10:03:00Z''\<rparr>"

definition ex_deck_row :: deck_row where
  "ex_deck_row = \<lparr>r_id = ''d2'', r_name = ''French'', r_description = None,
                  r_created_at = ''2026-02-06T09:00:00Z'', r_updated_at = ''2026-02-06T09:00:00Z'',
                  r_flashcard_cards = None\<rparr>"

definition ex_flashcards :: flashcards where
  "ex_flashcards =
     \<lparr>user = Some ex_user, decks = [ex_deck], cards = [ex_card1, ex_card2],
      progress = Map.empty, loading = False, error = None\<rparr>"

text \<open>The same mirror with nobody signed in.\<close>

definition ex_signed_out :: flashcards where
  "ex_signed_out = ex_flashcards\<lparr>user := None\<rparr>"

definition ex_store_error :: js_error where
  "ex_store_error = \<lparr>message = ''connection refused'', code = None, is_Error = False\<rparr>"

definition ex_session :: session where
  "ex_session = \<lparr>access_token = ''token-1''\<rparr>"

definition ex_pair1 :: WordPair where
  "ex_pair1 = \<lparr>wp_id = ''p1'', wp_user_id = ''u1'', wp_word1 = ''big'', wp_word2 = ''large'',
               wp_pair_type = synonym, wp_description = None,
               wp_created_at = ''2026-02-05T11:00:00Z'',
               wp_updated_at = ''2026-02-05T11:00:00Z''\<rparr>"

definition ex_pair2 :: WordPair where
  "ex_pair2 = \<lparr>wp_id = ''p2'', wp_user_id = ''u1'', wp_word1 = ''hot'', wp_word2 = ''cold'',
               wp_pair_type = antonym, wp_description = None,
               wp_created_at = ''2026-02-05T11:01:00Z'',
               wp_updated_at = ''2026-02-05T11:01:00Z''\<rparr>"

definition ex_pair1_updated :: WordPair where
  "ex_pair1_updated = ex_pair1\<lparr>wp_word1 := ''huge'', wp_updated_at := ''2026-02-07T08:00:00Z''\<rparr>"

definition ex_pairs :: UseWordPairsState where
  "ex_pairs = \<lparr>pairs = [ex_pair2, ex_pair1], wp_loading = False, wp_error = None,
               pagination = \<lparr>page = 1, limit = 20, total = 2\<rparr>\<rparr>"

text \<open>A response with a success status and a JSON body.\<close>

definition ok_response :: "'a \<Rightarrow> 'a fetched" where
  "ok_response v =
     Fetch_resolves \<lparr>ok = True, statusText = ''OK'', json = Json_resolves (J_object []) v\<rparr>"

definition ex_favorites :: favoriteWords where
  "ex_favorites = \<lparr>fav_user = Some ex_user, favorites = [], fav_loading = False,
                   fav_error = None\<rparr>"

definition ex_favorites2 :: favoriteWords where
  "ex_favorites2 = ex_favorites\<lparr>favorites := [''pear'', ''apple'']\<rparr>"

definition stored :: pg_write where
  "stored = Write_result 1 None"

definition duplicate :: pg_write where
  "duplicate = Write_result 0 (Some unique_violation)"

definition ex_page :: WordPairsResponse where
  "ex_page = \<lparr>resp_data = [ex_pair1], resp_count = 1, resp_page = 1, resp_limit = 20\<rparr>"

text \<open>A response with an error status whose body is not JSON.\<close>

definition ex_bad_gateway :: "WordPair http_response" where
  "ex_bad_gateway =
     \<lparr>ok = False, statusText = ''Bad Gateway'',
      json = Json_rejects (new_Error ''Unexpected token < in JSON at position 0'')\<rparr>"

text \<open>Responses with an error status and a JSON body, with and without a message.\<close>

definition ex_not_found :: "WordPair http_response" where
  "ex_not_found =
     \<lparr>ok = False, statusText = ''Not Found'',
      json = Json_resolves (J_object [(''error'', J_string ''Word pair not found'')]) ex_pair1\<rparr>"

definition ex_unavailable :: "WordPair http_response" where
  "ex_unavailable =
     \<lparr>ok = False, statusText = ''Service Unavailable'',
      json = Json_resolves (J_object [(''detail'', J_string ''down'')]) ex_pair1\<rparr>"

definition ex_progress :: FlashcardProgress where
  "ex_progress = \<lparr>p_id = ''g1'', p_card_id = ''c1'', p_correct_count = 3, p_incorrect_count = 1,
                  p_last_reviewed_at = Some ''2026-02-06T12:00:00Z''\<rparr>"

text \<open>A query that the store answers with an error and no data.\<close>

definition failed_query :: "'a pg_response" where
  "failed_query = Response None (Some ex_store_error)"

text \<open>The example mirror after a first fetch of progress, with one card reviewed before.\<close>

definition ex_reviewed :: flashcards where
  "ex_reviewed = ex_flashcards\<lparr>progress := [''c1'' \<mapsto> ex_progress]\<rparr>"

text \<open>Two answers to a card in a row, on an empty progress table.\<close>

definition ex_first :: "(flashcards, bool) settled \<times> progress_row list" where
  "ex_first =
     recordProgress_served ''g1'' [] ex_flashcards ''c1'' ''d1'' True
       ''2026-02-07T09:00:00Z'' ''2026-02-07T09:00:00Z''"

definition ex_second :: "(flashcards, bool) settled \<times> progress_row list" where
  "ex_second =
     recordProgress_served ''g2'' (snd ex_first) (new_state (fst ex_first)) ''c1'' ''d1'' True
       ''2026-02-07T09:01:00Z'' ''2026-02-07T09:01:00Z''"

text \<open>A page whose count is negative.\<close>

definition ex_negative_page :: WordPairsResponse where
  "ex_negative_page = \<lparr>resp_data = [], resp_count = - 1, resp_page = 1, resp_limit = 20\<rparr>"

text \<open>
  Responses with an error status whose body is the JSON null, and whose \<^verbatim>\<open>error\<close>
  property is not a string.
\<close>

definition ex_null_body :: "WordPair http_response" where
  "ex_null_body =
     \<lparr>ok = False, statusText = ''Internal Server Error'', json = Json_resolves J_null ex_pair1\<rparr>"

definition ex_teapot :: "WordPair http_response" where
  "ex_teapot =
     \<lparr>ok = False, statusText = ''I'm a teapot'',
      json = Json_resolves
               (J_object [(''error'', J_array [J_number ''418'', J_object []])]) ex_pair1\<rparr>"

definition ex_hidden_toString :: "WordPair http_response" where
  "ex_hidden_toString =
     \<lparr>ok = False, statusText = ''Bad Request'',
      json = Json_resolves
               (J_object [(''error'', J_object [(''toString'', J_string ''no'')])]) ex_pair1\<rparr>"

section \<open>Properties\<close>

subsection \<open>Sets spread into lists\<close>

lemma Set_add_distinct: "distinct acc \<Longrightarrow> distinct (Set_add x acc)"
  by (simp add: Set_add_def)

lemma set_Set_add: "set (Set_add x acc) = insert x (set acc)"
  by (auto simp: Set_add_def)

lemma fold_Set_add_distinct: "distinct acc \<Longrightarrow> distinct (fold Set_add xs acc)"
  by (induction xs arbitrary: acc) (simp_all add: Set_add_distinct)

lemma set_fold_Set_add: "set (fold Set_add xs acc) = set xs \<union> set acc"
  by (induction xs arbitrary: acc) (auto simp: set_Set_add)

lemma fold_Set_add_new:
  "distinct xs \<Longrightarrow> set xs \<inter> set acc = {} \<Longrightarrow> fold Set_add xs acc = acc @ xs"
proof (induction xs arbitrary: acc)
  case Nil
  then show ?case by simp
next
  case (Cons x xs)
  from Cons.prems have "x \<notin> set acc" by auto
  then have step: "Set_add x acc = acc @ [x]" by (simp add: Set_add_def)
  from Cons.prems have "distinct xs" and "set xs \<inter> set (acc @ [x]) = {}" by auto
  then have "fold Set_add xs (acc @ [x]) = (acc @ [x]) @ xs" by (rule Cons.IH)
  with step show ?case by simp
qed

lemma distinct_Set_spread: "distinct (Set_spread xs)"
  by (simp add: Set_spread_def fold_Set_add_distinct)

lemma set_Set_spread: "set (Set_spread xs) = set xs"
  by (simp add: Set_spread_def set_fold_Set_add)

lemma Set_spread_distinct_id: "distinct xs \<Longrightarrow> Set_spread xs = xs"
  using fold_Set_add_new [of xs "[]"] by (simp add: Set_spread_def)

lemma Set_spread_snoc: "Set_spread (xs @ [x]) = Set_add x (Set_spread xs)"
  by (simp add: Set_spread_def)

lemma Set_spread_snoc_known:
  "distinct xs \<Longrightarrow> x \<in> set xs \<Longrightarrow> Set_spread (xs @ [x]) = xs"
  by (simp add: Set_spread_snoc Set_spread_distinct_id Set_add_def)

lemma Set_spread_Cons_head:
  assumes "distinct (x # xs)"
  shows "Set_spread (x # x # xs) = x # xs"
proof -
  have "Set_spread (x # x # xs) = fold Set_add xs [x]"
    by (simp add: Set_spread_def Set_add_def)
  also have "\<dots> = [x] @ xs"
    using assms by (intro fold_Set_add_new) auto
  finally show ?thesis by simp
qed

lemma count_list_distinct: "distinct xs \<Longrightarrow> x \<in> set xs \<Longrightarrow> count_list xs x = 1"
  by (induction xs) (auto simp: count_list_0_iff)

subsection \<open>Create\<close>



subsection \<open>Update\<close>

lemma updateWordPair_Inr:
  assumes "returned (updateWordPair env st pairId updates sess f) = Inr p"
  shows "new_state (updateWordPair env st pairId updates sess f)
         = st\<lparr>wp_loading := False, wp_error := None,
               pairs := map (\<lambda>x. if wp_id x = pairId then p else x) (pairs st)\<rparr>"
  using assms
  by (auto simp: updateWordPair_def Let_def split: prod.splits sum.splits)

lemma updateWordPair_Inl:
  assumes "returned (updateWordPair env st pairId updates sess f) = Inl e"
  shows "new_state (updateWordPair env st pairId updates sess f)
         = st\<lparr>wp_loading := False,
               wp_error := Some (message_of e ''Failed to update word pair'')\<rparr>"
  using assms
  by (auto simp: updateWordPair_def Let_def split: prod.splits sum.splits)

text \<open>
  Claim C6. An update that succeeds replaces in place: the mirror keeps its length, every
  position whose item has the identifier now holds the item the store returned, and every
  other position holds what it held. An update that fails leaves the list as it was and
  surfaces the error: \<open>updateCard\<close> records it and returns null, \<open>updateWordPair\<close>
  records its message and throws it again.
\<close>

theorem update_replaces_in_place:
  "returned (updateCard st cardId frontText backText now (Single_row row)) = Some row
   \<and> length (cards (new_state (updateCard st cardId frontText backText now (Single_row row))))
       = length (cards st)
   \<and> (\<forall>i < length (cards st).
         cards (new_state (updateCard st cardId frontText backText now (Single_row row))) ! i
           = (if c_id (cards st ! i) = cardId then row else cards st ! i))
   \<and> returned (updateCard st cardId frontText backText now (Single_failure e)) = None
   \<and> cards (new_state (updateCard st cardId frontText backText now (Single_failure e))) = cards st
   \<and> error (new_state (updateCard st cardId frontText backText now (Single_failure e)))
       = Some (caught e ''Failed to update card'')
   \<and> (returned (updateWordPair env ws pairId updates sess f) = Inr p \<longrightarrow>
         length (pairs (new_state (updateWordPair env ws pairId updates sess f)))
           = length (pairs ws)
       \<and> (\<forall>i < length (pairs ws).
             pairs (new_state (updateWordPair env ws pairId updates sess f)) ! i
               = (if wp_id (pairs ws ! i) = pairId then p else pairs ws ! i)))
   \<and> (returned (updateWordPair env ws pairId updates sess f) = Inl err \<longrightarrow>
         pairs (new_state (updateWordPair env ws pairId updates sess f)) = pairs ws
       \<and> wp_error (new_state (updateWordPair env ws pairId updates sess f))
           = Some (message_of err ''Failed to update word pair''))"
proof -
  have card: "returned (updateCard st cardId frontText backText now (Single_row row)) = Some row
   \<and> length (cards (new_state (updateCard st cardId frontText backText now (Single_row row))))
       = length (cards st)
   \<and> (\<forall>i < length (cards st).
         cards (new_state (updateCard st cardId frontText backText now (Single_row row))) ! i
           = (if c_id (cards st ! i) = cardId then row else cards st ! i))
   \<and> returned (updateCard st cardId frontText backText now (Single_failure e)) = None
   \<and> cards (new_state (updateCard st cardId frontText backText now (Single_failure e))) = cards st
   \<and> error (new_state (updateCard st cardId frontText backText now (Single_failure e)))
       = Some (caught e ''Failed to update card'')"
    by (simp add: updateCard_def)
  have ok: "length (pairs (new_state (updateWordPair env ws pairId updates sess f)))
           = length (pairs ws)
       \<and> (\<forall>i < length (pairs ws).
             pairs (new_state (updateWordPair env ws pairId updates sess f)) ! i
               = (if wp_id (pairs ws ! i) = pairId then p else pairs ws ! i))"
    if "returned (updateWordPair env ws pairId updates sess f) = Inr p"
    by (simp add: updateWordPair_Inr [OF that])
  have bad: "pairs (new_state (updateWordPair env ws pairId updates sess f)) = pairs ws
       \<and> wp_error (new_state (updateWordPair env ws pairId updates sess f))
           = Some (message_of err ''Failed to update word pair'')"
    if "returned (updateWordPair env ws pairId updates sess f) = Inl err"
    by (simp add: updateWordPair_Inl [OF that])
  from card ok bad show ?thesis by blast
qed

theorem update_replaces_in_place_witness:
  "cards (new_state (updateCard ex_flashcards ''c1'' ''hola!'' ''hello'' ''2026-02-07T08:00:00Z''
                       (Single_row (ex_card1\<lparr>c_front := ''hola!''\<rparr>))))
     = [ex_card1\<lparr>c_front := ''hola!''\<rparr>, ex_card2]
   \<and> cards (new_state (updateCard ex_flashcards ''c1'' ''hola!'' ''hello'' ''2026-02-07T08:00:00Z''
                       (Single_failure ex_store_error)))
     = [ex_card1, ex_card2]
   \<and> returned (updateWordPair None ex_pairs ''p1''
        \<lparr>u_word1 = Some ''huge'', u_word2 = None, u_pair_type = None, u_description = None\<rparr>
        (Some ex_session) (ok_response ex_pair1_updated)) = Inr ex_pair1_updated
   \<and> pairs (new_state (updateWordPair None ex_pairs ''p1''
        \<lparr>u_word1 = Some ''huge'', u_word2 = None, u_pair_type = None, u_description = None\<rparr>
        (Some ex_session) (ok_response ex_pair1_updated))) = [ex_pair2, ex_pair1_updated]
   \<and> returned (updateWordPair None ex_pairs ''p1''
        \<lparr>u_word1 = Some ''huge'', u_word2 = None, u_pair_type = None, u_description = None\<rparr>
        None (ok_response ex_pair1_updated)) = Inl (new_Error ''User must be authenticated'')
   \<and> pairs (new_state (updateWordPair None ex_pairs ''p1''
        \<lparr>u_word1 = Some ''huge'', u_word2 = None, u_pair_type = None, u_description = None\<rparr>
        None (ok_response ex_pair1_updated))) = [ex_pair2, ex_pair1]"
proof -
  let ?u = "\<lparr>u_word1 = Some ''huge'', u_word2 = None, u_pair_type = None, u_description = None\<rparr>"
  note a = update_replaces_in_place [where st = ex_flashcards and cardId = "''c1''"
      and frontText = "''hola!''" and backText = "''hello''" and now = "''2026-02-07T08:00:00Z''"
      and row = "ex_card1\<lparr>c_front := ''hola!''\<rparr>" and e = ex_store_error
      and env = None and ws = ex_pairs and pairId = "''p1''" and updates = ?u
      and sess = "Some ex_session" and f = "ok_response ex_pair1_updated"
      and p = ex_pair1_updated]
  note b = update_replaces_in_place [where st = ex_flashcards and cardId = "''c1''"
      and frontText = "''hola!''" and backText = "''hello''" and now = "''2026-02-07T08:00:00Z''"
      and row = "ex_card1\<lparr>c_front := ''hola!''\<rparr>" and e = ex_store_error
      and env = None and ws = ex_pairs and pairId = "''p1''" and updates = ?u
      and sess = None and f = "ok_response ex_pair1_updated"
      and err = "new_Error ''User must be authenticated''"]
  show ?thesis
    using a b
    by (simp add: updateCard_def updateWordPair_def makeAuthenticatedRequest_def
        ok_response_def ex_flashcards_def ex_pairs_def Let_def ex_card1_def ex_card2_def
        ex_pair1_def ex_pair2_def ex_pair1_updated_def)
qed

subsection \<open>Favorite words\<close>

lemma addFavorite_duplicate:
  assumes "fav_user st = Some u" "write_error resp = Some e" "code e = Some ''23505''"
  shows "addFavorite st w resp =
           \<lparr>new_state = st\<lparr>favorites := Set_spread (favorites st @ [toLowerCase (trim w)])\<rparr>,
            returned = True, issued = [Insert_favorite (uid u) (toLowerCase (trim w))]\<rparr>"
  using assms by (simp add: addFavorite_def)

lemma addFavorite_failure:
  assumes "fav_user st = Some u" "write_error resp = Some e" "code e \<noteq> Some ''23505''"
  shows "addFavorite st w resp =
           \<lparr>new_state = st\<lparr>fav_error := Some (caught e ''Failed to add favorite'')\<rparr>,
            returned = False, issued = [Insert_favorite (uid u) (toLowerCase (trim w))]\<rparr>"
  using assms by (simp add: addFavorite_def)

lemma addFavorite_stored:
  assumes "fav_user st = Some u" "write_error resp = None"
  shows "addFavorite st w resp =
           \<lparr>new_state = st\<lparr>favorites := Set_spread (toLowerCase (trim w) # favorites st)\<rparr>,
            returned = True, issued = [Insert_favorite (uid u) (toLowerCase (trim w))]\<rparr>"
  using assms by (simp add: addFavorite_def)

text \<open>
  Claim C4. With a user, an insert of \<open>addFavorite\<close> that the store rejects with the code
  of a uniqueness violation (23505) is a success: the operation returns true, the error
  state is what it was, and the mirror becomes the old mirror with the normalized word
  added under set semantics, so it has no duplicates and holds the normalized word exactly
  once. Any other error of the insert is recorded, the operation returns false, and the
  mirror is what it was.
\<close>

theorem duplicate_add_is_success:
  assumes "fav_user st = Some u" and "write_error resp = Some e"
  shows "(code e = Some ''23505'' \<longrightarrow>
            returned (addFavorite st w resp) = True
          \<and> fav_error (new_state (addFavorite st w resp)) = fav_error st
          \<and> favorites (new_state (addFavorite st w resp))
              = Set_spread (favorites st @ [toLowerCase (trim w)])
          \<and> set (favorites (new_state (addFavorite st w resp)))
              = insert (toLowerCase (trim w)) (set (favorites st))
          \<and> distinct (favorites (new_state (addFavorite st w resp)))
          \<and> count_list (favorites (new_state (addFavorite st w resp))) (toLowerCase (trim w)) = 1)
       \<and> (code e \<noteq> Some ''23505'' \<longrightarrow>
            returned (addFavorite st w resp) = False
          \<and> fav_error (new_state (addFavorite st w resp))
              = Some (caught e ''Failed to add favorite'')
          \<and> favorites (new_state (addFavorite st w resp)) = favorites st)"
proof (intro conjI impI)
  assume dup: "code e = Some ''23505''"
  note eq = addFavorite_duplicate [OF assms dup, of w]
  show "returned (addFavorite st w resp) = True"
    and "fav_error (new_state (addFavorite st w resp)) = fav_error st"
    and fs: "favorites (new_state (addFavorite st w resp))
              = Set_spread (favorites st @ [toLowerCase (trim w)])"
    by (simp_all add: eq)
  show s: "set (favorites (new_state (addFavorite st w resp)))
              = insert (toLowerCase (trim w)) (set (favorites st))"
    by (simp add: fs set_Set_spread)
  show d: "distinct (favorites (new_state (addFavorite st w resp)))"
    by (simp add: fs distinct_Set_spread)
  show "count_list (favorites (new_state (addFavorite st w resp))) (toLowerCase (trim w)) = 1"
    using d s by (intro count_list_distinct) simp_all
next
  assume other: "code e \<noteq> Some ''23505''"
  note eq = addFavorite_failure [OF assms other, of w]
  show "returned (addFavorite st w resp) = False"
    and "fav_error (new_state (addFavorite st w resp))
              = Some (caught e ''Failed to add favorite'')"
    and "favorites (new_state (addFavorite st w resp)) = favorites st"
    by (simp_all add: eq)
qed

lemma norm_Apple: "toLowerCase (trim ''Apple'') = ''apple''" by code_simp
lemma norm_apple: "toLowerCase (trim ''apple'') = ''apple''" by code_simp
lemma norm_apple_spaces: "toLowerCase (trim '' apple '') = ''apple''" by code_simp

theorem duplicate_add_is_success_witness:
  "fav_user ex_favorites2 = Some ex_user
   \<and> write_error duplicate = Some unique_violation
   \<and> code unique_violation = Some ''23505''
   \<and> returned (addFavorite ex_favorites2 ''Apple'' duplicate) = True
   \<and> favorites (new_state (addFavorite ex_favorites2 ''Apple'' duplicate)) = [''pear'', ''apple'']
   \<and> fav_error (new_state (addFavorite ex_favorites2 ''Apple'' duplicate)) = None
   \<and> write_error (Write_result 0 (Some ex_store_error)) = Some ex_store_error
   \<and> code ex_store_error \<noteq> Some ''23505''
   \<and> returned (addFavorite ex_favorites2 ''Apple'' (Write_result 0 (Some ex_store_error))) = False
   \<and> favorites (new_state (addFavorite ex_favorites2 ''Apple'' (Write_result 0 (Some ex_store_error))))
       = [''pear'', ''apple'']
   \<and> fav_error (new_state (addFavorite ex_favorites2 ''Apple'' (Write_result 0 (Some ex_store_error))))
       = Some (new_Error ''Failed to add favorite'')"
proof -
  have u: "fav_user ex_favorites2 = Some ex_user"
    by (simp add: ex_favorites2_def ex_favorites_def)
  have d: "write_error duplicate = Some unique_violation"
    by (simp add: duplicate_def)
  have f: "write_error (Write_result 0 (Some ex_store_error)) = Some ex_store_error"
    by simp
  have m: "favorites ex_favorites2 = [''pear'', ''apple'']" "fav_error ex_favorites2 = None"
    by (simp_all add: ex_favorites2_def ex_favorites_def)
  show ?thesis
    using duplicate_add_is_success [OF u d, of "''Apple''"]
      duplicate_add_is_success [OF u f, of "''Apple''"]
    by (simp add: u d m norm_Apple unique_violation_def ex_store_error_def caught_def
        Set_spread_def Set_add_def)
qed

lemma addFavorite_accepted:
  assumes "fav_user st = Some u" "stored_or_duplicate resp"
  shows "fav_user (new_state (addFavorite st w resp)) = Some u"
    and "distinct (favorites (new_state (addFavorite st w resp)))"
    and "set (favorites (new_state (addFavorite st w resp)))
           = insert (toLowerCase (trim w)) (set (favorites st))"
    and "returned (addFavorite st w resp)"
proof -
  show "fav_user (new_state (addFavorite st w resp)) = Some u"
    using assms by (simp add: addFavorite_def stored_or_duplicate_def split: option.splits)
  show "distinct (favorites (new_state (addFavorite st w resp)))"
    using assms
    by (simp add: addFavorite_def stored_or_duplicate_def distinct_Set_spread
        split: option.splits)
  show "set (favorites (new_state (addFavorite st w resp)))
           = insert (toLowerCase (trim w)) (set (favorites st))"
    using assms
    by (simp add: addFavorite_def stored_or_duplicate_def set_Set_spread
        split: option.splits)
  show "returned (addFavorite st w resp)"
    using assms by (simp add: addFavorite_def stored_or_duplicate_def split: option.splits)
qed

lemma addFavorite_each_accepted:
  assumes "fav_user st = Some u" and "xs \<noteq> []"
    and "\<forall>(w, resp) \<in> set xs. toLowerCase (trim w) = n \<and> stored_or_duplicate resp"
  shows "distinct (favorites (addFavorite_each st xs))
       \<and> set (favorites (addFavorite_each st xs)) = insert n (set (favorites st))"
  using assms
proof (induction st xs rule: addFavorite_each.induct)
  case (1 st)
  then show ?case by simp
next
  case (2 st w resp rest)
  let ?st1 = "new_state (addFavorite st w resp)"
  from "2.prems" have w: "toLowerCase (trim w) = n" and r: "stored_or_duplicate resp"
    by auto
  note first = addFavorite_accepted [OF "2.prems"(1) r, of w]
  show ?case
  proof (cases rest)
    case Nil
    with first w show ?thesis by simp
  next
    case (Cons y ys)
    then have "rest \<noteq> []" by simp
    moreover from "2.prems" have
      "\<forall>(w, resp) \<in> set rest. toLowerCase (trim w) = n \<and> stored_or_duplicate resp"
      by auto
    ultimately have "distinct (favorites (addFavorite_each ?st1 rest))
       \<and> set (favorites (addFavorite_each ?st1 rest)) = insert n (set (favorites ?st1))"
      using first(1) by (intro "2.IH")
    with first w show ?thesis by auto
  qed
qed

lemma distinct_singleton: "distinct xs \<Longrightarrow> set xs = {x} \<Longrightarrow> xs = [x]"
  by (cases xs) (auto simp: subset_singleton_iff dest: subset_singletonD)

lemma add_twice_same_mirror:
  assumes u: "fav_user st = Some u" and r1: "stored_or_duplicate r1"
    and same: "toLowerCase (trim w') = toLowerCase (trim w)"
    and r2: "write_error r2 = Some e" "code e = Some ''23505''"
  shows "favorites (new_state (addFavorite (new_state (addFavorite st w r1)) w' r2))
         = favorites (new_state (addFavorite st w r1))"
proof -
  let ?st1 = "new_state (addFavorite st w r1)"
  note first = addFavorite_accepted [OF u r1, of w]
  have "favorites (new_state (addFavorite ?st1 w' r2))
        = Set_spread (favorites ?st1 @ [toLowerCase (trim w)])"
    using addFavorite_duplicate [OF first(1) r2, of w'] same by simp
  also have "\<dots> = favorites ?st1"
    using first by (intro Set_spread_snoc_known) auto
  finally show ?thesis .
qed

lemma fold_Set_add_prefix: "\<exists>ys. fold Set_add xs acc = acc @ ys"
proof (induction xs arbitrary: acc)
  case Nil
  then show ?case by simp
next
  case (Cons x xs)
  from Cons.IH [of "Set_add x acc"] obtain ys where
    ys: "fold Set_add xs (Set_add x acc) = Set_add x acc @ ys" ..
  show ?case
  proof (cases "x \<in> set acc")
    case True
    then have "Set_add x acc = acc" by (simp add: Set_add_def)
    with ys have "fold Set_add (x # xs) acc = acc @ ys" by simp
    then show ?thesis ..
  next
    case False
    then have "Set_add x acc = acc @ [x]" by (simp add: Set_add_def)
    with ys have "fold Set_add (x # xs) acc = acc @ (x # ys)" by simp
    then show ?thesis ..
  qed
qed

lemma Set_spread_Cons_again: "Set_spread (x # Set_spread (x # xs)) = Set_spread (x # xs)"
proof -
  have "Set_spread (x # xs) = fold Set_add xs [x]"
    by (simp add: Set_spread_def Set_add_def)
  with fold_Set_add_prefix [of xs "[x]"] obtain ys where ys: "Set_spread (x # xs) = x # ys"
    by auto
  have "distinct (x # ys)"
    using distinct_Set_spread [of "x # xs"] by (simp only: ys)
  then have "Set_spread (x # x # ys) = x # ys" by (rule Set_spread_Cons_head)
  then show ?thesis by (simp only: ys)
qed

lemma add_twice_stored:
  assumes u: "fav_user st = Some u" and r1: "write_error r1 = None"
    and same: "toLowerCase (trim w') = toLowerCase (trim w)"
    and r2: "write_error r2 = None"
  shows "favorites (new_state (addFavorite (new_state (addFavorite st w r1)) w' r2))
         = favorites (new_state (addFavorite st w r1))"
proof -
  let ?st1 = "new_state (addFavorite st w r1)"
  have u1: "fav_user ?st1 = Some u"
    and f1: "favorites ?st1 = Set_spread (toLowerCase (trim w) # favorites st)"
    using u by (simp_all add: addFavorite_stored [OF u r1])
  have "favorites (new_state (addFavorite ?st1 w' r2))
        = Set_spread (toLowerCase (trim w) # favorites ?st1)"
    by (simp add: addFavorite_stored [OF u1 r2] same)
  then show ?thesis
    by (simp only: f1 Set_spread_Cons_again)
qed

lemma addFavorite_served_duplicate:
  assumes "fav_user st = Some u"
    and "\<exists>r \<in> set tbl. fw_user_id r = uid u \<and> fw_word r = toLowerCase (trim w)"
  shows "addFavorite_served tbl st w = (addFavorite st w duplicate, tbl)"
  using assms by (simp add: addFavorite_served_def duplicate_def)

lemma addFavorite_served_stored:
  assumes "fav_user st = Some u"
    and "\<not> (\<exists>r \<in> set tbl. fw_user_id r = uid u \<and> fw_word r = toLowerCase (trim w))"
  shows "addFavorite_served tbl st w
         = (addFavorite st w stored,
            tbl @ [\<lparr>fw_user_id = uid u, fw_word = toLowerCase (trim w)\<rparr>])"
  using assms by (simp add: addFavorite_served_def stored_def)

lemma stored_or_duplicate_examples: "stored_or_duplicate stored" "stored_or_duplicate duplicate"
  by (simp_all add: stored_or_duplicate_def stored_def duplicate_def unique_violation_def)

lemma addFavorite_served_accepted:
  assumes u: "fav_user st = Some u"
  shows "fav_user (new_state (fst (addFavorite_served tbl st w))) = Some u"
    and "distinct (favorites (new_state (fst (addFavorite_served tbl st w))))"
    and "set (favorites (new_state (fst (addFavorite_served tbl st w))))
           = insert (toLowerCase (trim w)) (set (favorites st))"
    and "returned (fst (addFavorite_served tbl st w))"
    and "\<exists>r \<in> set (snd (addFavorite_served tbl st w)).
           fw_user_id r = uid u \<and> fw_word r = toLowerCase (trim w)"
proof -
  consider (dup) "\<exists>r \<in> set tbl. fw_user_id r = uid u \<and> fw_word r = toLowerCase (trim w)"
    | (new) "\<not> (\<exists>r \<in> set tbl. fw_user_id r = uid u \<and> fw_word r = toLowerCase (trim w))"
    by blast
  then have "(fav_user (new_state (fst (addFavorite_served tbl st w))) = Some u
    \<and> distinct (favorites (new_state (fst (addFavorite_served tbl st w))))
    \<and> set (favorites (new_state (fst (addFavorite_served tbl st w))))
           = insert (toLowerCase (trim w)) (set (favorites st))
    \<and> returned (fst (addFavorite_served tbl st w)))
    \<and> (\<exists>r \<in> set (snd (addFavorite_served tbl st w)).
           fw_user_id r = uid u \<and> fw_word r = toLowerCase (trim w))"
  proof cases
    case dup
    with addFavorite_accepted [OF u stored_or_duplicate_examples(2), of w]
    show ?thesis by (simp add: addFavorite_served_duplicate [OF u dup])
  next
    case new
    with addFavorite_accepted [OF u stored_or_duplicate_examples(1), of w]
    show ?thesis by (simp add: addFavorite_served_stored [OF u new])
  qed
  then show "fav_user (new_state (fst (addFavorite_served tbl st w))) = Some u"
    and "distinct (favorites (new_state (fst (addFavorite_served tbl st w))))"
    and "set (favorites (new_state (fst (addFavorite_served tbl st w))))
           = insert (toLowerCase (trim w)) (set (favorites st))"
    and "returned (fst (addFavorite_served tbl st w))"
    and "\<exists>r \<in> set (snd (addFavorite_served tbl st w)).
           fw_user_id r = uid u \<and> fw_word r = toLowerCase (trim w)"
    by simp_all
qed

lemma addFavorite_each_served_accepted:
  assumes "fav_user st = Some u" and "ws \<noteq> []"
    and "\<forall>x \<in> set ws. toLowerCase (trim x) = n"
  shows "distinct (favorites (fst (addFavorite_each_served tbl st ws)))
       \<and> set (favorites (fst (addFavorite_each_served tbl st ws))) = insert n (set (favorites st))"
  using assms
proof (induction tbl st ws rule: addFavorite_each_served.induct)
  case (1 tbl st)
  then show ?case by simp
next
  case (2 tbl st w rest)
  let ?served = "addFavorite_served tbl st w"
  from "2.prems" have w: "toLowerCase (trim w) = n" by simp
  note first = addFavorite_served_accepted [OF "2.prems"(1), of tbl w]
  show ?case
  proof (cases rest)
    case Nil
    with first w show ?thesis by simp
  next
    case (Cons y ys)
    then have "rest \<noteq> []" by simp
    moreover from "2.prems" have "\<forall>x \<in> set rest. toLowerCase (trim x) = n" by simp
    ultimately have "distinct (favorites (fst (addFavorite_each_served (snd ?served)
                                                 (new_state (fst ?served)) rest)))
       \<and> set (favorites (fst (addFavorite_each_served (snd ?served)
                                (new_state (fst ?served)) rest)))
           = insert n (set (favorites (new_state (fst ?served))))"
      using first(1) by (intro "2.IH")
    with first w show ?thesis by auto
  qed
qed

lemma addFavorite_served_twice:
  assumes u: "fav_user st = Some u"
    and same: "toLowerCase (trim w') = toLowerCase (trim w)"
  shows "favorites (new_state (fst (addFavorite_served (snd (addFavorite_served tbl st w))
                                      (new_state (fst (addFavorite_served tbl st w))) w')))
         = favorites (new_state (fst (addFavorite_served tbl st w)))"
proof -
  let ?first = "addFavorite_served tbl st w"
  note first = addFavorite_served_accepted [OF u, of tbl w]
  from first(5) same
  have known: "\<exists>r \<in> set (snd ?first). fw_user_id r = uid u \<and> fw_word r = toLowerCase (trim w')"
    by simp
  have "favorites (new_state (fst (addFavorite_served (snd ?first) (new_state (fst ?first)) w')))
        = Set_spread (favorites (new_state (fst ?first)) @ [toLowerCase (trim w)])"
    using addFavorite_duplicate [OF first(1), of duplicate unique_violation w'] same
    by (simp add: addFavorite_served_duplicate [OF first(1) known] duplicate_def
        unique_violation_def)
  also have "\<dots> = favorites (new_state (fst ?first))"
    using first by (intro Set_spread_snoc_known) auto
  finally show ?thesis .
qed

lemma removeFavorite_outcomes:
  assumes "fav_user st = Some u"
  shows "write_error resp = None \<Longrightarrow>
           removeFavorite st w resp
           = \<lparr>new_state = st\<lparr>favorites :=
                 filter (\<lambda>x. x \<noteq> toLowerCase (trim w)) (favorites st)\<rparr>,
              returned = True, issued = [Delete_favorite (uid u) (toLowerCase (trim w))]\<rparr>"
    and "write_error resp = Some e \<Longrightarrow>
           removeFavorite st w resp
           = \<lparr>new_state = st\<lparr>fav_error := Some (caught e ''Failed to remove favorite'')\<rparr>,
              returned = False, issued = [Delete_favorite (uid u) (toLowerCase (trim w))]\<rparr>"
  using assms by (simp_all add: removeFavorite_def)

text \<open>
  Claim C3. With a user, the three operations on favorite words work on the word trimmed
  and lowercased: \<open>addFavorite\<close> sends that word to the store and puts it into the
  mirror, \<open>removeFavorite\<close> deletes it at the store and, when the store reports no error,
  takes every entry equal to it out of the mirror (with an error the mirror stays and the
  error is recorded), \<open>isFavorite\<close> looks for it in the mirror, and two inputs that
  normalize to the same word give the same result in each operation. After any non-empty
  sequence of \<open>addFavorite\<close> of inputs that normalize to one word, each insert accepted by
  the store or rejected as a duplicate, the mirror holds that word exactly once, and it is
  the only entry when the mirror was empty before. Adding the word again leaves the entries
  of the mirror the same, and the very list the same when the second insert is rejected as
  a duplicate or when both were accepted. Against the table with its uniqueness constraint,
  whatever rows it holds, both hold with no condition on the answers: the word is in the
  mirror exactly once after the sequence, and adding it again leaves the list as it is.
\<close>

theorem favorite_words_normalized:
  assumes "fav_user st = Some u"
  shows "issued (addFavorite st w resp) = [Insert_favorite (uid u) (toLowerCase (trim w))]
       \<and> issued (removeFavorite st w resp) = [Delete_favorite (uid u) (toLowerCase (trim w))]
       \<and> isFavorite st w = (toLowerCase (trim w) \<in> set (favorites st))
       \<and> (toLowerCase (trim w') = toLowerCase (trim w) \<longrightarrow>
             addFavorite st w' resp = addFavorite st w resp
           \<and> removeFavorite st w' resp = removeFavorite st w resp
           \<and> isFavorite st w' = isFavorite st w)
       \<and> (xs \<noteq> []
            \<and> (\<forall>(x, r) \<in> set xs. toLowerCase (trim x) = n \<and> stored_or_duplicate r) \<longrightarrow>
             count_list (favorites (addFavorite_each st xs)) n = 1
           \<and> (favorites st = [] \<longrightarrow> favorites (addFavorite_each st xs) = [n]))
       \<and> (toLowerCase (trim w') = toLowerCase (trim w)
            \<and> stored_or_duplicate ra \<and> stored_or_duplicate rb \<longrightarrow>
             set (favorites (new_state (addFavorite (new_state (addFavorite st w ra)) w' rb)))
               = set (favorites (new_state (addFavorite st w ra)))
           \<and> (write_error rb \<noteq> None \<or> write_error ra = None \<longrightarrow>
                favorites (new_state (addFavorite (new_state (addFavorite st w ra)) w' rb))
                  = favorites (new_state (addFavorite st w ra))))
       \<and> (stored_or_duplicate resp \<longrightarrow> isFavorite (new_state (addFavorite st w resp)) w)
       \<and> (write_error resp = None \<longrightarrow>
             returned (removeFavorite st w resp)
           \<and> favorites (new_state (removeFavorite st w resp))
               = filter (\<lambda>x. x \<noteq> toLowerCase (trim w)) (favorites st)
           \<and> \<not> isFavorite (new_state (removeFavorite st w resp)) w)
       \<and> (write_error resp = Some e \<longrightarrow>
             \<not> returned (removeFavorite st w resp)
           \<and> favorites (new_state (removeFavorite st w resp)) = favorites st
           \<and> fav_error (new_state (removeFavorite st w resp))
               = Some (caught e ''Failed to remove favorite''))
       \<and> (ws \<noteq> [] \<and> (\<forall>x \<in> set ws. toLowerCase (trim x) = n) \<longrightarrow>
             count_list (favorites (fst (addFavorite_each_served tbl st ws))) n = 1
           \<and> (favorites st = [] \<longrightarrow> favorites (fst (addFavorite_each_served tbl st ws)) = [n]))
       \<and> (toLowerCase (trim w') = toLowerCase (trim w) \<longrightarrow>
             favorites (new_state (fst (addFavorite_served (snd (addFavorite_served tbl st w))
                                          (new_state (fst (addFavorite_served tbl st w))) w')))
               = favorites (new_state (fst (addFavorite_served tbl st w))))"
proof -
  have calls: "issued (addFavorite st w resp) = [Insert_favorite (uid u) (toLowerCase (trim w))]
       \<and> issued (removeFavorite st w resp) = [Delete_favorite (uid u) (toLowerCase (trim w))]"
    using assms by (simp add: addFavorite_def removeFavorite_def Let_def split: option.splits)
  have look: "isFavorite st w = (toLowerCase (trim w) \<in> set (favorites st))"
    by (simp add: isFavorite_def)
  have same: "addFavorite st w' resp = addFavorite st w resp
           \<and> removeFavorite st w' resp = removeFavorite st w resp
           \<and> isFavorite st w' = isFavorite st w"
    if "toLowerCase (trim w') = toLowerCase (trim w)"
    unfolding addFavorite_def removeFavorite_def isFavorite_def that by simp
  have once: "count_list (favorites (addFavorite_each st xs)) n = 1
           \<and> (favorites st = [] \<longrightarrow> favorites (addFavorite_each st xs) = [n])"
    if "xs \<noteq> []"
      and "\<forall>(x, r) \<in> set xs. toLowerCase (trim x) = n \<and> stored_or_duplicate r"
  proof -
    from addFavorite_each_accepted [OF assms that]
    have d: "distinct (favorites (addFavorite_each st xs))"
      and s: "set (favorites (addFavorite_each st xs)) = insert n (set (favorites st))"
      by simp_all
    from d s have "count_list (favorites (addFavorite_each st xs)) n = 1"
      by (intro count_list_distinct) simp_all
    moreover have "favorites (addFavorite_each st xs) = [n]" if "favorites st = []"
      using d s that by (intro distinct_singleton) simp_all
    ultimately show ?thesis by simp
  qed
  have again: "set (favorites (new_state (addFavorite (new_state (addFavorite st w ra)) w' rb)))
               = set (favorites (new_state (addFavorite st w ra)))
           \<and> (write_error rb \<noteq> None \<or> write_error ra = None \<longrightarrow>
                favorites (new_state (addFavorite (new_state (addFavorite st w ra)) w' rb))
                  = favorites (new_state (addFavorite st w ra)))"
    if n: "toLowerCase (trim w') = toLowerCase (trim w)"
      and ra: "stored_or_duplicate ra" and rb: "stored_or_duplicate rb"
  proof -
    let ?st1 = "new_state (addFavorite st w ra)"
    note first = addFavorite_accepted [OF assms ra, of w]
    note second = addFavorite_accepted [OF first(1) rb, of w']
    have entries: "set (favorites (new_state (addFavorite ?st1 w' rb))) = set (favorites ?st1)"
      using first(3) second(3) n by auto
    have list: "favorites (new_state (addFavorite ?st1 w' rb)) = favorites ?st1"
      if "write_error rb \<noteq> None \<or> write_error ra = None"
    proof (cases "write_error rb")
      case None
      with that have "write_error ra = None" by simp
      then show ?thesis using None by (intro add_twice_stored [OF assms _ n])
    next
      case (Some e)
      with rb have "code e = Some ''23505''" by (simp add: stored_or_duplicate_def)
      with Some show ?thesis by (intro add_twice_same_mirror [OF assms ra n])
    qed
    from entries list show ?thesis by simp
  qed
  have added: "isFavorite (new_state (addFavorite st w resp)) w" if "stored_or_duplicate resp"
    using addFavorite_accepted(3) [OF assms that, of w] by (simp add: isFavorite_def)
  have removed: "returned (removeFavorite st w resp)
           \<and> favorites (new_state (removeFavorite st w resp))
               = filter (\<lambda>x. x \<noteq> toLowerCase (trim w)) (favorites st)
           \<and> \<not> isFavorite (new_state (removeFavorite st w resp)) w"
    if "write_error resp = None"
    by (simp add: removeFavorite_outcomes(1) [OF assms that] isFavorite_def)
  have kept: "\<not> returned (removeFavorite st w resp)
           \<and> favorites (new_state (removeFavorite st w resp)) = favorites st
           \<and> fav_error (new_state (removeFavorite st w resp))
               = Some (caught e ''Failed to remove favorite'')"
    if "write_error resp = Some e"
    by (simp add: removeFavorite_outcomes(2) [OF assms that])
  have served_once: "count_list (favorites (fst (addFavorite_each_served tbl st ws))) n = 1
           \<and> (favorites st = [] \<longrightarrow> favorites (fst (addFavorite_each_served tbl st ws)) = [n])"
    if "ws \<noteq> []" and "\<forall>x \<in> set ws. toLowerCase (trim x) = n"
  proof -
    from addFavorite_each_served_accepted [OF assms that, of tbl]
    have d: "distinct (favorites (fst (addFavorite_each_served tbl st ws)))"
      and s: "set (favorites (fst (addFavorite_each_served tbl st ws)))
                = insert n (set (favorites st))"
      by simp_all
    from d s have "count_list (favorites (fst (addFavorite_each_served tbl st ws))) n = 1"
      by (intro count_list_distinct) simp_all
    moreover have "favorites (fst (addFavorite_each_served tbl st ws)) = [n]"
      if "favorites st = []"
      using d s that by (intro distinct_singleton) simp_all
    ultimately show ?thesis by simp
  qed
  note served_again = addFavorite_served_twice [OF assms, of w' w tbl]
  have first_part: "issued (addFavorite st w resp) = [Insert_favorite (uid u) (toLowerCase (trim w))]
       \<and> issued (removeFavorite st w resp) = [Delete_favorite (uid u) (toLowerCase (trim w))]
       \<and> isFavorite st w = (toLowerCase (trim w) \<in> set (favorites st))
       \<and> (toLowerCase (trim w') = toLowerCase (trim w) \<longrightarrow>
             addFavorite st w' resp = addFavorite st w resp
           \<and> removeFavorite st w' resp = removeFavorite st w resp
           \<and> isFavorite st w' = isFavorite st w)
       \<and> (xs \<noteq> []
            \<and> (\<forall>(x, r) \<in> set xs. toLowerCase (trim x) = n \<and> stored_or_duplicate r) \<longrightarrow>
             count_list (favorites (addFavorite_each st xs)) n = 1
           \<and> (favorites st = [] \<longrightarrow> favorites (addFavorite_each st xs) = [n]))
       \<and> (toLowerCase (trim w') = toLowerCase (trim w)
            \<and> stored_or_duplicate ra \<and> stored_or_duplicate rb \<longrightarrow>
             set (favorites (new_state (addFavorite (new_state (addFavorite st w ra)) w' rb)))
               = set (favorites (new_state (addFavorite st w ra)))
           \<and> (write_error rb \<noteq> None \<or> write_error ra = None \<longrightarrow>
                favorites (new_state (addFavorite (new_state (addFavorite st w ra)) w' rb))
                  = favorites (new_state (addFavorite st w ra))))"
    using calls look same once again by blast
  from first_part added removed kept served_once served_again show ?thesis by blast
qed



theorem favorite_words_normalized_witness:
  "fav_user ex_favorites = Some ex_user
   \<and> favorites (addFavorite_each ex_favorites
        [(''Apple'', stored), (''apple'', duplicate), ('' apple '', duplicate)]) = [''apple'']
   \<and> favorites (addFavorite_each ex_favorites
        [('' apple '', stored), (''Apple'', duplicate), (''apple'', duplicate)]) = [''apple'']
   \<and> count_list (favorites (addFavorite_each ex_favorites2
        [(''apple'', duplicate), ('' apple '', duplicate), (''Apple'', duplicate)])) ''apple'' = 1
   \<and> issued (addFavorite ex_favorites '' apple '' stored) = [Insert_favorite ''u1'' ''apple'']
   \<and> favorites (new_state (addFavorite (new_state (addFavorite ex_favorites2 ''Apple'' stored))
        '' apple '' duplicate)) = [''apple'', ''pear'']
   \<and> favorites (new_state (addFavorite ex_favorites2 ''Apple'' stored)) = [''apple'', ''pear'']
   \<and> isFavorite ex_favorites2 ''Apple''
   \<and> returned (removeFavorite ex_favorites2 ''Apple'' (Write_result 1 None))
   \<and> favorites (new_state (removeFavorite ex_favorites2 ''Apple'' (Write_result 1 None)))
       = [''pear'']
   \<and> \<not> isFavorite (new_state (removeFavorite ex_favorites2 ''Apple'' (Write_result 1 None)))
         '' apple ''
   \<and> \<not> returned (removeFavorite ex_favorites2 ''Apple'' (Write_result 0 (Some ex_store_error)))
   \<and> favorites (new_state (removeFavorite ex_favorites2 ''Apple''
                               (Write_result 0 (Some ex_store_error)))) = [''pear'', ''apple'']
   \<and> addFavorite_each_served [] ex_favorites ['' apple '', ''Apple'', ''apple'']
       = (ex_favorites\<lparr>favorites := [''apple'']\<rparr>, [\<lparr>fw_user_id = ''u1'', fw_word = ''apple''\<rparr>])
   \<and> favorites (fst (addFavorite_each_served [\<lparr>fw_user_id = ''u1'', fw_word = ''apple''\<rparr>]
                         ex_favorites2 [''Apple'', ''apple'', '' apple '']))
       = [''pear'', ''apple'']"
proof -
  have u: "fav_user ex_favorites = Some ex_user" "fav_user ex_favorites2 = Some ex_user"
    by (simp_all add: ex_favorites2_def ex_favorites_def)
  note norm = norm_Apple norm_apple norm_apple_spaces
  show ?thesis
    using
      favorite_words_normalized [OF u(1), where n = "''apple''" and w = "'' apple ''"
        and resp = stored and w' = "''Apple''" and ra = stored and rb = duplicate
        and xs = "[(''Apple'', stored), (''apple'', duplicate), ('' apple '', duplicate)]"
        and ws = "['' apple '', ''Apple'', ''apple'']" and tbl = "[]"]
      favorite_words_normalized [OF u(1), where n = "''apple''" and w = "'' apple ''"
        and resp = stored and w' = "''Apple''" and ra = stored and rb = duplicate
        and xs = "[('' apple '', stored), (''Apple'', duplicate), (''apple'', duplicate)]"]
      favorite_words_normalized [OF u(2), where n = "''apple''" and w = "''Apple''"
        and resp = "Write_result 1 None" and w' = "'' apple ''" and ra = stored
        and rb = duplicate
        and xs = "[(''apple'', duplicate), ('' apple '', duplicate), (''Apple'', duplicate)]"
        and ws = "[''Apple'', ''apple'', '' apple '']"
        and tbl = "[\<lparr>fw_user_id = ''u1'', fw_word = ''apple''\<rparr>]"]
      favorite_words_normalized [OF u(2), where w = "''Apple''"
        and resp = "Write_result 0 (Some ex_store_error)" and e = ex_store_error]
    by (simp add: u norm stored_def duplicate_def stored_or_duplicate_def
        unique_violation_def ex_favorites_def ex_favorites2_def ex_user_def addFavorite_def
        addFavorite_served_def removeFavorite_def isFavorite_def Set_spread_def Set_add_def)
qed

subsection \<open>Word pairs and their request helper\<close>

lemma request_none: "makeAuthenticatedRequest env m ep b None f
   = (Inl (new_Error ''User must be authenticated''), [Auth_getSession])"
  by (simp add: makeAuthenticatedRequest_def)

lemma createWordPair_cases:
  "(returned (createWordPair env st a b t d sess f) = Inr p \<longrightarrow>
      new_state (createWordPair env st a b t d sess f)
        = st\<lparr>wp_loading := False, wp_error := None, pairs := p # pairs st,
              pagination := (pagination st)\<lparr>total := total (pagination st) + 1\<rparr>\<rparr>)
   \<and> (returned (createWordPair env st a b t d sess f) = Inl e \<longrightarrow>
      new_state (createWordPair env st a b t d sess f)
        = st\<lparr>wp_loading := False,
              wp_error := Some (message_of e ''Failed to create word pair'')\<rparr>)"
  by (auto simp: createWordPair_def Let_def split: prod.splits sum.splits)

lemma deleteWordPair_cases:
  "(returned (deleteWordPair env st pairId sess f) = Inr x \<longrightarrow>
      new_state (deleteWordPair env st pairId sess f)
        = st\<lparr>wp_loading := False, wp_error := None,
              pairs := filter (\<lambda>p. wp_id p \<noteq> pairId) (pairs st),
              pagination := (pagination st)\<lparr>total := max 0 (total (pagination st) - 1)\<rparr>\<rparr>)
   \<and> (returned (deleteWordPair env st pairId sess f) = Inl e \<longrightarrow>
      new_state (deleteWordPair env st pairId sess f)
        = st\<lparr>wp_loading := False,
              wp_error := Some (message_of e ''Failed to delete word pair'')\<rparr>)"
  by (auto simp: deleteWordPair_def Let_def split: prod.splits sum.splits)

lemma updateWordPair_pagination:
  "pagination (new_state (updateWordPair env st pairId updates sess f)) = pagination st"
  by (auto simp: updateWordPair_def Let_def split: prod.splits sum.splits)

lemma request_success:
  "fst (makeAuthenticatedRequest env m ep b (Some s)
          (Fetch_resolves \<lparr>ok = True, statusText = status, json = Json_resolves j v\<rparr>)) = Inr v"
  by (simp add: makeAuthenticatedRequest_def)

lemma fetchWordPairs_Inr:
  assumes "fst (makeAuthenticatedRequest env ''GET''
             (Word_pairs_page (case pg of None \<Rightarrow> 1 | Some n \<Rightarrow> n)
                              (case lm of None \<Rightarrow> 20 | Some n \<Rightarrow> n)) None sess f) = Inr v"
  shows "new_state (fetchWordPairs env st pg lm sess f)
         = st\<lparr>wp_loading := False, wp_error := None, pairs := resp_data v,
               pagination := \<lparr>page = resp_page v, limit = resp_limit v,
                              total = resp_count v\<rparr>\<rparr>"
  using assms by (auto simp: fetchWordPairs_def Let_def split: prod.splits sum.splits)

lemma fetchWordPairs_Inl:
  assumes "fst (makeAuthenticatedRequest env ''GET''
             (Word_pairs_page (case pg of None \<Rightarrow> 1 | Some n \<Rightarrow> n)
                              (case lm of None \<Rightarrow> 20 | Some n \<Rightarrow> n)) None sess f) = Inl e"
  shows "new_state (fetchWordPairs env st pg lm sess f)
         = st\<lparr>wp_loading := False,
               wp_error := Some (message_of e ''Failed to fetch word pairs'')\<rparr>"
  using assms by (auto simp: fetchWordPairs_def Let_def split: prod.splits sum.splits)

text \<open>
  Claim C10, as amended. In the word-pairs hook, starting from a total that is not negative,
  the total is not negative after \<open>createWordPair\<close>, \<open>updateWordPair\<close> and
  \<open>deleteWordPair\<close>, and after any operation that fails. \<open>createWordPair\<close> that succeeds
  adds one to the total, \<open>deleteWordPair\<close> that succeeds takes one off but not below zero
  (zero stays zero), \<open>updateWordPair\<close> does not touch the pagination, and an operation that
  fails (it throws, or for the fetch it records an error) leaves the pagination record as it
  was. \<open>fetchWordPairs\<close> that succeeds replaces the pagination record by the page, limit
  and count of the response, unchecked: the total is then the count the service reported.
\<close>

theorem total_after_operations:
  assumes "0 \<le> total (pagination st)"
  shows "0 \<le> total (pagination (new_state
                (createWordPair env st firstWord secondWord pairType description sess fc)))
       \<and> (returned (createWordPair env st firstWord secondWord pairType description sess fc) = Inr p \<longrightarrow>
            pagination (new_state (createWordPair env st firstWord secondWord pairType description sess fc))
              = (pagination st)\<lparr>total := total (pagination st) + 1\<rparr>)
       \<and> (returned (createWordPair env st firstWord secondWord pairType description sess fc) = Inl e \<longrightarrow>
            pagination (new_state (createWordPair env st firstWord secondWord pairType description sess fc))
              = pagination st)
       \<and> 0 \<le> total (pagination (new_state (deleteWordPair env st pairId sess fd)))
       \<and> (returned (deleteWordPair env st pairId sess fd) = Inr () \<longrightarrow>
            pagination (new_state (deleteWordPair env st pairId sess fd))
              = (pagination st)\<lparr>total := max 0 (total (pagination st) - 1)\<rparr>
          \<and> (total (pagination st) = 0 \<longrightarrow>
               total (pagination (new_state (deleteWordPair env st pairId sess fd))) = 0))
       \<and> (returned (deleteWordPair env st pairId sess fd) = Inl e \<longrightarrow>
            pagination (new_state (deleteWordPair env st pairId sess fd)) = pagination st)
       \<and> pagination (new_state (updateWordPair env st pairId updates sess fu)) = pagination st
       \<and> (wp_error (new_state (fetchWordPairs env st pg lm sess ff)) \<noteq> None \<longrightarrow>
            pagination (new_state (fetchWordPairs env st pg lm sess ff)) = pagination st)
       \<and> pagination (new_state (fetchWordPairs env st pg lm (Some s)
            (Fetch_resolves \<lparr>ok = True, statusText = status, json = Json_resolves j v\<rparr>)))
           = \<lparr>page = resp_page v, limit = resp_limit v, total = resp_count v\<rparr>"
proof -
  let ?create = "createWordPair env st firstWord secondWord pairType description sess fc"
  let ?delete = "deleteWordPair env st pairId sess fd"
  let ?fetch = "fetchWordPairs env st pg lm sess ff"
  let ?get = "fst (makeAuthenticatedRequest env ''GET''
             (Word_pairs_page (case pg of None \<Rightarrow> 1 | Some n \<Rightarrow> n)
                              (case lm of None \<Rightarrow> 20 | Some n \<Rightarrow> n)) None sess ff)"
  have c1: "pagination (new_state ?create) = (pagination st)\<lparr>total := total (pagination st) + 1\<rparr>"
    if "returned ?create = Inr p" for p
    using createWordPair_cases [of env st firstWord secondWord pairType description sess fc p] that
    by simp
  have c2: "pagination (new_state ?create) = pagination st" if "returned ?create = Inl e" for e
    using createWordPair_cases [of env st firstWord secondWord pairType description sess fc _ e] that
    by simp
  have c0: "0 \<le> total (pagination (new_state ?create))"
  proof (cases "returned ?create")
    case (Inl e)
    with c2 assms show ?thesis by simp
  next
    case (Inr p)
    with c1 assms show ?thesis by simp
  qed
  have d1: "pagination (new_state ?delete)
              = (pagination st)\<lparr>total := max 0 (total (pagination st) - 1)\<rparr>"
    if "returned ?delete = Inr ()"
    using deleteWordPair_cases [of env st pairId sess fd "()"] that by simp
  have d2: "pagination (new_state ?delete) = pagination st" if "returned ?delete = Inl e" for e
    using deleteWordPair_cases [of env st pairId sess fd _ e] that by simp
  have d0: "0 \<le> total (pagination (new_state ?delete))"
  proof (cases "returned ?delete")
    case (Inl e)
    with d2 assms show ?thesis by simp
  next
    case (Inr x)
    with d1 show ?thesis by simp
  qed
  have f1: "pagination (new_state ?fetch) = pagination st"
    if "wp_error (new_state ?fetch) \<noteq> None"
  proof (cases ?get)
    case (Inl e)
    then show ?thesis by (simp add: fetchWordPairs_Inl)
  next
    case (Inr v)
    with that show ?thesis by (simp add: fetchWordPairs_Inr)
  qed
  have f2: "pagination (new_state (fetchWordPairs env st pg lm (Some s)
            (Fetch_resolves \<lparr>ok = True, statusText = status, json = Json_resolves j v\<rparr>)))
           = \<lparr>page = resp_page v, limit = resp_limit v, total = resp_count v\<rparr>"
    by (simp add: fetchWordPairs_Inr [OF request_success])
  from c0 c1 c2 d0 d1 d2 f1 f2 updateWordPair_pagination [of env st pairId updates sess fu]
  show ?thesis by simp
qed

theorem total_after_operations_witness:
  "0 \<le> total (pagination ex_pairs) \<and> 0 \<le> total (pagination initial_state)
   \<and> total (pagination (new_state (createWordPair None ex_pairs '' big'' ''large'' None None
         (Some ex_session) (ok_response ex_pair1)))) = 3
   \<and> total (pagination (new_state (deleteWordPair None ex_pairs ''p1''
         (Some ex_session) (ok_response ())))) = 1
   \<and> total (pagination (new_state (deleteWordPair None initial_state ''p1''
         (Some ex_session) (ok_response ())))) = 0
   \<and> pagination (new_state (fetchWordPairs None ex_pairs None None
         (Some ex_session) (ok_response ex_page))) = \<lparr>page = 1, limit = 20, total = 1\<rparr>
   \<and> pagination (new_state (createWordPair None ex_pairs '' big'' ''large'' None None
         None (ok_response ex_pair1))) = pagination ex_pairs
   \<and> pagination (new_state (deleteWordPair None ex_pairs ''p1'' None (ok_response ())))
       = pagination ex_pairs
   \<and> pagination (new_state (fetchWordPairs None ex_pairs None None None (ok_response ex_page)))
       = pagination ex_pairs"
proof -
  have t: "0 \<le> total (pagination ex_pairs)" "0 \<le> total (pagination initial_state)"
    by (simp_all add: ex_pairs_def initial_state_def)
  note defs = createWordPair_def deleteWordPair_def fetchWordPairs_def
    makeAuthenticatedRequest_def ok_response_def ex_pairs_def initial_state_def ex_page_def
    Let_def
  show ?thesis
    using
      total_after_operations [OF t(1), where env = None and firstWord = "'' big''"
        and secondWord = "''large''" and pairType = None and description = None
        and sess = "Some ex_session" and fc = "ok_response ex_pair1" and p = ex_pair1
        and pairId = "''p1''" and fd = "ok_response ()" and ff = "ok_response ex_page"
        and pg = None and lm = None and s = ex_session and status = "''OK''"
        and j = "J_object []" and v = ex_page]
      total_after_operations [OF t(2), where env = None and sess = "Some ex_session"
        and pairId = "''p1''" and fd = "ok_response ()"]
      total_after_operations [OF t(1), where env = None and firstWord = "'' big''"
        and secondWord = "''large''" and pairType = None and description = None
        and sess = None and fc = "ok_response ex_pair1"
        and e = "new_Error ''User must be authenticated''"
        and pairId = "''p1''" and fd = "ok_response ()" and ff = "ok_response ex_page"
        and pg = None and lm = None]
    by (simp add: defs)
qed

text \<open>
  The claim as it stands fails for \<open>fetchWordPairs\<close>: the total was not negative, the
  fetch succeeds with a count of \<open>-1\<close>, and the total is \<open>-1\<close> after it.
\<close>

theorem fetch_total_counterexample:
  "0 \<le> total (pagination ex_pairs)
   \<and> wp_error (new_state (fetchWordPairs None ex_pairs None None (Some ex_session)
        (ok_response ex_negative_page))) = None
   \<and> total (pagination (new_state (fetchWordPairs None ex_pairs None None (Some ex_session)
        (ok_response ex_negative_page)))) = - 1"
  by (simp add: fetchWordPairs_def makeAuthenticatedRequest_def ok_response_def ex_pairs_def
      ex_negative_page_def Let_def)

lemma error_of_cases:
  "error_of j = Inl t \<longleftrightarrow> j = J_null \<and> t = TypeError_null"
  by (cases j) auto

text \<open>
  Claim C9, as amended. A request of the helper is sent only with a session and carries
  the header \<^verbatim>\<open>Authorization: Bearer\<close> followed by the access token of that session;
  without a session the helper throws \<^verbatim>\<open>User must be authenticated\<close> and sends nothing.
  On every response whose status is not a success it throws: \<^verbatim>\<open>Unknown error\<close> when the
  body is not JSON; the \<^verbatim>\<open>TypeError\<close> of reading a property of null when the body is
  the JSON null; an error whose message is the string coercion of the \<^verbatim>\<open>error\<close>
  property of the body when that property counts as true, which for a non-empty string is
  the string itself, or the \<^verbatim>\<open>TypeError\<close> that this coercion raises, as it does for an
  object with a member named \<^verbatim>\<open>toString\<close>; and \<^verbatim>\<open>Request failed:\<close> followed by the
  status text when the body has no such property or one that counts as false.
\<close>

theorem request_helper_errors:
  "makeAuthenticatedRequest env m ep b None f
     = (Inl (new_Error ''User must be authenticated''), [Auth_getSession])
   \<and> snd (makeAuthenticatedRequest env m ep b (Some s) f)
       = [Auth_getSession,
          Fetch \<lparr>http_method = m, http_service = AI_SERVICE_URL env, http_endpoint = ep,
                 http_headers = [(''Content-Type'', ''application/json''),
                                 (''Authorization'', ''Bearer '' @ access_token s)],
                 http_body = b\<rparr>]
   \<and> (\<not> ok r \<longrightarrow>
        fst (makeAuthenticatedRequest env m ep b (Some s) (Fetch_resolves r))
          = Inl (case json r of
                   Json_rejects x \<Rightarrow> new_Error ''Unknown error''
                 | Json_resolves j v \<Rightarrow>
                     (case error_of j of
                        Inl type_error \<Rightarrow> TypeError_null
                      | Inr None \<Rightarrow> new_Error (''Request failed: '' @ statusText r)
                      | Inr (Some e) \<Rightarrow>
                          if truthy e
                          then (case ToString e of
                                  Inl raised \<Rightarrow> raised
                                | Inr text \<Rightarrow> new_Error text)
                          else new_Error (''Request failed: '' @ statusText r))))
   \<and> (error_of errorData = Inl t \<longleftrightarrow> errorData = J_null \<and> t = TypeError_null)
   \<and> error_of (J_object members) = Inr (map_of (rev members) ''error'')
   \<and> truthy (J_string msg) = (msg \<noteq> []) \<and> ToString (J_string msg) = Inr msg
   \<and> ToString (J_object props)
       = (if ''toString'' \<in> fst ` set props then Inl TypeError_primitive
          else Inr ''[object Object]'')"
proof -
  have thrown: "fst (makeAuthenticatedRequest env m ep b (Some s) (Fetch_resolves r))
          = Inl (case json r of
                   Json_rejects x \<Rightarrow> new_Error ''Unknown error''
                 | Json_resolves j v \<Rightarrow>
                     (case error_of j of
                        Inl type_error \<Rightarrow> TypeError_null
                      | Inr None \<Rightarrow> new_Error (''Request failed: '' @ statusText r)
                      | Inr (Some e) \<Rightarrow>
                          if truthy e
                          then (case ToString e of
                                  Inl raised \<Rightarrow> raised
                                | Inr text \<Rightarrow> new_Error text)
                          else new_Error (''Request failed: '' @ statusText r)))"
    if "\<not> ok r"
    using that
    by (auto simp: makeAuthenticatedRequest_def error_message_def throw_new_Error_def
        error_of_cases Let_def split: json_result.splits sum.splits option.splits)
  have calls: "snd (makeAuthenticatedRequest env m ep b (Some s) f)
       = [Auth_getSession,
          Fetch \<lparr>http_method = m, http_service = AI_SERVICE_URL env, http_endpoint = ep,
                 http_headers = [(''Content-Type'', ''application/json''),
                                 (''Authorization'', ''Bearer '' @ access_token s)],
                 http_body = b\<rparr>]"
    by (simp add: makeAuthenticatedRequest_def Let_def
        split: fetched.splits json_result.splits sum.splits)
  from thrown calls show ?thesis
    by (simp add: request_none error_of_cases)
qed

theorem request_helper_errors_witness:
  "\<not> ok ex_not_found \<and> \<not> ok ex_unavailable \<and> \<not> ok ex_bad_gateway \<and> \<not> ok ex_null_body
   \<and> \<not> ok ex_teapot \<and> \<not> ok ex_hidden_toString
   \<and> fst (makeAuthenticatedRequest None ''PUT'' (Word_pairs_id ''p1'') None (Some ex_session)
            (Fetch_resolves ex_not_found)) = Inl (new_Error ''Word pair not found'')
   \<and> fst (makeAuthenticatedRequest None ''PUT'' (Word_pairs_id ''p1'') None (Some ex_session)
            (Fetch_resolves ex_unavailable))
       = Inl (new_Error ''Request failed: Service Unavailable'')
   \<and> fst (makeAuthenticatedRequest None ''PUT'' (Word_pairs_id ''p1'') None (Some ex_session)
            (Fetch_resolves ex_bad_gateway)) = Inl (new_Error ''Unknown error'')
   \<and> fst (makeAuthenticatedRequest None ''PUT'' (Word_pairs_id ''p1'') None (Some ex_session)
            (Fetch_resolves ex_null_body)) = Inl TypeError_null
   \<and> fst (makeAuthenticatedRequest None ''PUT'' (Word_pairs_id ''p1'') None (Some ex_session)
            (Fetch_resolves ex_teapot)) = Inl (new_Error ''418,[object Object]'')
   \<and> fst (makeAuthenticatedRequest None ''PUT'' (Word_pairs_id ''p1'') None (Some ex_session)
            (Fetch_resolves ex_hidden_toString)) = Inl TypeError_primitive"
  using request_helper_errors [where r = ex_not_found and env = None and m = "''PUT''"
      and ep = "Word_pairs_id ''p1''" and b = None and s = ex_session
      and f = "Fetch_resolves ex_bad_gateway" and errorData = J_null
      and t = TypeError_null]
    request_helper_errors [where r = ex_unavailable and env = None and m = "''PUT''"
      and ep = "Word_pairs_id ''p1''" and b = None and s = ex_session
      and f = "Fetch_resolves ex_bad_gateway" and errorData = J_null
      and t = TypeError_null]
    request_helper_errors [where r = ex_bad_gateway and env = None and m = "''PUT''"
      and ep = "Word_pairs_id ''p1''" and b = None and s = ex_session
      and f = "Fetch_resolves ex_bad_gateway" and errorData = J_null
      and t = TypeError_null]
    request_helper_errors [where r = ex_null_body and env = None and m = "''PUT''"
      and ep = "Word_pairs_id ''p1''" and b = None and s = ex_session
      and f = "Fetch_resolves ex_bad_gateway" and errorData = J_null
      and t = TypeError_null]
    request_helper_errors [where r = ex_teapot and env = None and m = "''PUT''"
      and ep = "Word_pairs_id ''p1''" and b = None and s = ex_session
      and f = "Fetch_resolves ex_bad_gateway" and errorData = J_null
      and t = TypeError_null]
    request_helper_errors [where r = ex_hidden_toString and env = None and m = "''PUT''"
      and ep = "Word_pairs_id ''p1''" and b = None and s = ex_session
      and f = "Fetch_resolves ex_bad_gateway" and errorData = J_null
      and t = TypeError_null]
  by (simp add: ex_not_found_def ex_unavailable_def ex_bad_gateway_def ex_null_body_def
      ex_teapot_def ex_hidden_toString_def)

text \<open>
  The claim as it stands fails where the body of the error response is not JSON: the
  service gave no message, and the message thrown is not the status text.
\<close>

theorem status_text_fallback_counterexample:
  "\<not> ok ex_bad_gateway
   \<and> fst (makeAuthenticatedRequest None ''PUT'' (Word_pairs_id ''p1'') None (Some ex_session)
            (Fetch_resolves ex_bad_gateway)) = Inl (new_Error ''Unknown error'')
   \<and> message (new_Error ''Unknown error'') \<noteq> statusText ex_bad_gateway"
  by (simp add: makeAuthenticatedRequest_def error_message_def throw_new_Error_def
      ex_bad_gateway_def new_Error_def)

subsection \<open>Fetch\<close>

lemma progressMap_snoc: "progressMap (rows @ [p]) = (progressMap rows)(p_card_id p \<mapsto> p)"
  by (simp add: progressMap_def)

lemma progressMap_lookup:
  "progressMap rows k =
     (if filter (\<lambda>p. p_card_id p = k) rows = [] then None
      else Some (last (filter (\<lambda>p. p_card_id p = k) rows)))"
proof (induction rows rule: rev_induct)
  case Nil
  then show ?case by (simp add: progressMap_def)
next
  case (snoc p rows)
  then show ?case by (simp add: progressMap_snoc)
qed

text \<open>
  Claim C8, as amended. \<open>fetchDecks\<close> (with a user) and \<open>fetchCards\<close>: when the store
  answers with an error, the error is recorded, the mirror is what it was and loading ends
  false; when it answers without one, the mirror is replaced by the returned rows in their
  order (each deck row turned into a deck with its card count), the error is cleared and
  loading ends false. \<open>fetchProgress\<close> (with a user) on an error changes no state: the
  progress mirror is what it was, no error is recorded and loading is not touched; without
  an error it replaces the progress mirror by the returned rows keyed by card, the last row
  of a card winning, and touches nothing else.
\<close>

theorem fetch_outcomes:
  "(user st = Some u \<longrightarrow>
      new_state (fetchDecks st (Response drows (Some e)))
        = st\<lparr>loading := False, error := Some (caught e ''Failed to fetch decks'')\<rparr>
    \<and> new_state (fetchDecks st (Response drows None))
        = st\<lparr>loading := False, error := None, decks := map decksWithCounts (or_empty drows)\<rparr>
    \<and> map d_id (decks (new_state (fetchDecks st (Response drows None))))
        = map r_id (or_empty drows)
    \<and> new_state (fetchProgress st deckId (Response prows (Some e))) = st
    \<and> new_state (fetchProgress st deckId (Response prows None))
        = st\<lparr>progress := progressMap (or_empty prows)\<rparr>
    \<and> progress (new_state (fetchProgress st deckId (Response prows None))) k
        = (if filter (\<lambda>p. p_card_id p = k) (or_empty prows) = [] then None
           else Some (last (filter (\<lambda>p. p_card_id p = k) (or_empty prows)))))
   \<and> new_state (fetchCards st deckId (Response crows (Some e)))
        = st\<lparr>loading := False, error := Some (caught e ''Failed to fetch cards'')\<rparr>
   \<and> new_state (fetchCards st deckId (Response crows None))
        = st\<lparr>loading := False, error := None, cards := or_empty crows\<rparr>"
  by (simp add: fetchDecks_def fetchCards_def fetchProgress_def Let_def decksWithCounts_def
      progressMap_lookup comp_def)

theorem fetch_outcomes_witness:
  "user ex_flashcards = Some ex_user
   \<and> decks (new_state (fetchDecks ex_flashcards (Response (Some [ex_deck_row]) None)))
       = [decksWithCounts ex_deck_row]
   \<and> decks (new_state (fetchDecks ex_flashcards failed_query)) = [ex_deck]
   \<and> error (new_state (fetchDecks ex_flashcards failed_query))
       = Some (new_Error ''Failed to fetch decks'')
   \<and> loading (new_state (fetchDecks ex_flashcards failed_query)) = False
   \<and> cards (new_state (fetchCards ex_flashcards ''d1'' (Response (Some [ex_card2, ex_card1]) None)))
       = [ex_card2, ex_card1]
   \<and> cards (new_state (fetchCards ex_flashcards ''d1'' failed_query)) = [ex_card1, ex_card2]
   \<and> error (new_state (fetchCards ex_flashcards ''d1'' failed_query))
       = Some (new_Error ''Failed to fetch cards'')
   \<and> new_state (fetchProgress ex_flashcards ''d1'' failed_query) = ex_flashcards
   \<and> progress (new_state (fetchProgress ex_flashcards ''d1'' (Response (Some [ex_progress]) None)))
        ''c1'' = Some ex_progress"
proof -
  have u: "user ex_flashcards = Some ex_user" by (simp add: ex_flashcards_def)
  show ?thesis
    using fetch_outcomes [where st = ex_flashcards and u = ex_user and e = ex_store_error
        and drows = "None" and prows = None and crows = None and deckId = "''d1''"
        and k = "''c1''"]
      fetch_outcomes [where st = ex_flashcards and u = ex_user and k = "''c1''"
        and drows = "Some [ex_deck_row]" and prows = "Some [ex_progress]"
        and crows = "Some [ex_card2, ex_card1]" and deckId = "''d1''"]
    by (simp add: failed_query_def or_empty_def ex_flashcards_def ex_store_error_def
        caught_def fetchDecks_def fetchCards_def fetchProgress_def progressMap_def
        ex_progress_def)
qed

text \<open>
  The claim as it stands fails for \<open>fetchProgress\<close>: the store answers with an error,
  and no error is recorded.
\<close>

theorem fetchProgress_error_counterexample:
  "supabaseError (failed_query :: FlashcardProgress list pg_response) = Some ex_store_error
   \<and> issued (fetchProgress ex_flashcards ''d1'' failed_query) = [Select_progress ''u1'' ''d1'']
   \<and> error (new_state (fetchProgress ex_flashcards ''d1'' failed_query)) = None"
  by (simp add: fetchProgress_def failed_query_def ex_flashcards_def ex_user_def)

subsection \<open>Progress\<close>

lemma served_insert:
  assumes u: "user st = Some u" and none: "progress st cardId = None"
    and fresh: "\<forall>r \<in> set tbl. row_card_id r \<noteq> cardId"
  shows "recordProgress_served new_id tbl st cardId deckId correct now1 now2 =
           (\<lparr>new_state = st\<lparr>progress := progressMap (map as_FlashcardProgress
                 (filter (\<lambda>r. row_user_id r = uid u \<and> row_deck_id r = deckId) tbl)
                 @ [\<lparr>p_id = new_id, p_card_id = cardId,
                     p_correct_count = (if correct then 1 else 0),
                     p_incorrect_count = (if correct then 0 else 1),
                     p_last_reviewed_at = Some now1\<rparr>])\<rparr>,
             returned = True,
             issued = [Insert_progress (uid u) cardId deckId
                         (if correct then 1 else 0) (if correct then 0 else 1) now1,
                       Select_progress (uid u) deckId]\<rparr>,
            tbl @ [\<lparr>row_id = new_id, row_user_id = uid u, row_card_id = cardId,
                    row_deck_id = deckId, row_correct_count = (if correct then 1 else 0),
                    row_incorrect_count = (if correct then 0 else 1),
                    row_last_reviewed_at = Some now1\<rparr>])"
proof -
  have no: "\<not> (\<exists>r \<in> set tbl. row_user_id r = uid u \<and> row_card_id r = cardId)"
    using fresh by blast
  have sel: "(\<lambda>r. row_user_id r = uid u \<and> row_user_id r = uid u \<and> row_deck_id r = deckId)
             = (\<lambda>r. row_user_id r = uid u \<and> row_deck_id r = deckId)"
    by auto
  show ?thesis
    using u none no
    by (simp add: recordProgress_served_def recordProgress_def progress_write_def
        fetchProgress_def store_select_def or_empty_def as_FlashcardProgress_def sel)
qed

lemma served_update:
  assumes u: "user st = Some u" and some: "progress st cardId = Some existing"
  shows "recordProgress_served new_id tbl st cardId deckId correct now1 now2 =
           (\<lparr>new_state = st\<lparr>progress := progressMap (map as_FlashcardProgress
                 (filter (\<lambda>r. row_user_id r = uid u \<and> row_deck_id r = deckId)
                    (map (apply_update (uid u) (p_id existing)
                            (p_correct_count existing + (if correct then 1 else 0))
                            (p_incorrect_count existing + (if correct then 0 else 1)) now1)
                       tbl)))\<rparr>,
             returned = True,
             issued = [Update_progress (p_id existing)
                         (p_correct_count existing + (if correct then 1 else 0))
                         (p_incorrect_count existing + (if correct then 0 else 1)) now1 now2,
                       Select_progress (uid u) deckId]\<rparr>,
            map (apply_update (uid u) (p_id existing)
                   (p_correct_count existing + (if correct then 1 else 0))
                   (p_incorrect_count existing + (if correct then 0 else 1)) now1) tbl)"
proof -
  have sel: "(\<lambda>r. row_user_id r = uid u \<and> row_user_id r = uid u \<and> row_deck_id r = deckId)
             = (\<lambda>r. row_user_id r = uid u \<and> row_deck_id r = deckId)"
    by auto
  show ?thesis
    using u some
    by (simp add: recordProgress_served_def recordProgress_def progress_write_def
        fetchProgress_def store_select_def or_empty_def sel)
qed

lemma apply_update_other:
  "\<forall>r \<in> set tbl. row_id r \<noteq> rid \<Longrightarrow> map (apply_update a rid c i t) tbl = tbl"
  by (induction tbl) (simp_all add: apply_update_def)

lemma twice_correct:
  assumes u: "user st = Some u" and none: "progress st cardId = None"
    and fresh: "\<forall>r \<in> set tbl. row_card_id r \<noteq> cardId \<and> row_id r \<noteq> new_id"
  shows "(let first = recordProgress_served new_id tbl st cardId deckId True time_a time_b;
              second = recordProgress_served next_id (snd first) (new_state (fst first))
                         cardId deckId True time_c time_d
          in returned (fst first) \<and> returned (fst second)
           \<and> progress (new_state (fst second)) cardId
               = Some \<lparr>p_id = new_id, p_card_id = cardId, p_correct_count = 2,
                       p_incorrect_count = 0, p_last_reviewed_at = Some time_c\<rparr>
           \<and> filter (\<lambda>r. row_card_id r = cardId) (snd second)
               = [\<lparr>row_id = new_id, row_user_id = uid u, row_card_id = cardId,
                   row_deck_id = deckId, row_correct_count = 2, row_incorrect_count = 0,
                   row_last_reviewed_at = Some time_c\<rparr>])"
proof -
  define first where
    "first = recordProgress_served new_id tbl st cardId deckId True time_a time_b"
  define second where
    "second = recordProgress_served next_id (snd first) (new_state (fst first))
                cardId deckId True time_c time_d"
  let ?own = "filter (\<lambda>r. row_user_id r = uid u \<and> row_deck_id r = deckId) tbl"
  let ?fp = "\<lparr>p_id = new_id, p_card_id = cardId, p_correct_count = 1,
               p_incorrect_count = 0, p_last_reviewed_at = Some time_a\<rparr>"
  let ?row = "\<lparr>row_id = new_id, row_user_id = uid u, row_card_id = cardId,
                row_deck_id = deckId, row_correct_count = 1, row_incorrect_count = 0,
                row_last_reviewed_at = Some time_a\<rparr>"
  let ?row' = "\<lparr>row_id = new_id, row_user_id = uid u, row_card_id = cardId,
                row_deck_id = deckId, row_correct_count = 2, row_incorrect_count = 0,
                row_last_reviewed_at = Some time_c\<rparr>"
  from fresh have card: "\<forall>r \<in> set tbl. row_card_id r \<noteq> cardId"
    and ident: "\<forall>r \<in> set tbl. row_id r \<noteq> new_id" by auto
  have one: "first = (\<lparr>new_state = st\<lparr>progress :=
                          progressMap (map as_FlashcardProgress ?own @ [?fp])\<rparr>,
                       returned = True,
                       issued = [Insert_progress (uid u) cardId deckId 1 0 time_a,
                                 Select_progress (uid u) deckId]\<rparr>,
                      tbl @ [?row])"
    unfolding first_def using served_insert [OF u none card, of new_id deckId True time_a time_b]
    by simp
  have u': "user (new_state (fst first)) = Some u"
    and existing: "progress (new_state (fst first)) cardId = Some ?fp"
    using u by (simp_all add: one progressMap_snoc)
  have table: "map (apply_update (uid u) new_id 2 0 time_c) (tbl @ [?row]) = tbl @ [?row']"
    by (simp add: apply_update_other [OF ident]) (simp add: apply_update_def)
  have two: "second = (\<lparr>new_state = (new_state (fst first))\<lparr>progress :=
                          progressMap (map as_FlashcardProgress ?own
                                       @ [as_FlashcardProgress ?row'])\<rparr>,
                         returned = True,
                         issued = [Update_progress new_id 2 0 time_c time_d,
                                   Select_progress (uid u) deckId]\<rparr>,
                       tbl @ [?row'])"
    unfolding second_def
    using served_update [OF u' existing, of next_id "snd first" deckId True time_c time_d] table
    by (simp add: one)
  have "returned (fst first) \<and> returned (fst second)
       \<and> progress (new_state (fst second)) cardId
           = Some \<lparr>p_id = new_id, p_card_id = cardId, p_correct_count = 2,
                   p_incorrect_count = 0, p_last_reviewed_at = Some time_c\<rparr>
       \<and> filter (\<lambda>r. row_card_id r = cardId) (snd second) = [?row']"
    using card
    by (simp add: one two progressMap_snoc as_FlashcardProgress_def filter_empty_conv)
  then show ?thesis
    unfolding Let_def first_def second_def .
qed

text \<open>
  Claim C7. With a user, \<open>recordProgress\<close> looks the card up in the progress mirror. When
  there is a record, it issues an update of that record in which one of the two counts is
  one more than in the mirror (the correct count for a correct answer, else the incorrect
  count), the other is as in the mirror, and \<open>last_reviewed_at\<close> is the time of the call.
  When there is none, it inserts a row with counts 1 and 0 for a correct answer and 0 and 1
  otherwise. When the write did not fail it fetches the progress of the deck again and
  returns true, the state being that of the fetch; when the write failed it returns false
  and leaves the state. So, on a progress table without a row for the card, two calls in a
  row with a correct answer, each from the state the call before left and answered by the
  table, leave one row for the card, with counts 2 and 0, and the same in the mirror.
\<close>

theorem recordProgress_counts:
  assumes "user st = Some u"
  shows "(progress st cardId = Some existing \<longrightarrow>
            issued (recordProgress st cardId deckId correct time_a time_b written fetched)
              = Update_progress (p_id existing)
                  (p_correct_count existing + (if correct then 1 else 0))
                  (p_incorrect_count existing + (if correct then 0 else 1)) time_a time_b
                # (if write_error written = None then [Select_progress (uid u) deckId] else []))
       \<and> (progress st cardId = None \<longrightarrow>
            issued (recordProgress st cardId deckId correct time_a time_b written fetched)
              = Insert_progress (uid u) cardId deckId
                  (if correct then 1 else 0) (if correct then 0 else 1) time_a
                # (if write_error written = None then [Select_progress (uid u) deckId] else []))
       \<and> (write_error written = None \<longrightarrow>
            returned (recordProgress st cardId deckId correct time_a time_b written fetched)
          \<and> new_state (recordProgress st cardId deckId correct time_a time_b written fetched)
              = new_state (fetchProgress st deckId fetched))
       \<and> (write_error written = Some e \<longrightarrow>
            \<not> returned (recordProgress st cardId deckId correct time_a time_b written fetched)
          \<and> new_state (recordProgress st cardId deckId correct time_a time_b written fetched)
              = st)
       \<and> (progress st cardId = None
            \<and> (\<forall>r \<in> set tbl. row_card_id r \<noteq> cardId \<and> row_id r \<noteq> new_id) \<longrightarrow>
            (let first = recordProgress_served new_id tbl st cardId deckId True time_a time_b;
                 second = recordProgress_served next_id (snd first) (new_state (fst first))
                            cardId deckId True time_c time_d
             in returned (fst first) \<and> returned (fst second)
              \<and> progress (new_state (fst second)) cardId
                  = Some \<lparr>p_id = new_id, p_card_id = cardId, p_correct_count = 2,
                          p_incorrect_count = 0, p_last_reviewed_at = Some time_c\<rparr>
              \<and> filter (\<lambda>r. row_card_id r = cardId) (snd second)
                  = [\<lparr>row_id = new_id, row_user_id = uid u, row_card_id = cardId,
                      row_deck_id = deckId, row_correct_count = 2, row_incorrect_count = 0,
                      row_last_reviewed_at = Some time_c\<rparr>]))"
proof -
  let ?call = "recordProgress st cardId deckId correct time_a time_b written fetched"
  have update: "issued ?call
              = Update_progress (p_id existing)
                  (p_correct_count existing + (if correct then 1 else 0))
                  (p_incorrect_count existing + (if correct then 0 else 1)) time_a time_b
                # (if write_error written = None then [Select_progress (uid u) deckId] else [])"
    if "progress st cardId = Some existing"
    using assms that
    by (simp add: recordProgress_def progress_write_def fetchProgress_def Let_def
        split: option.splits)
  have insert: "issued ?call
              = Insert_progress (uid u) cardId deckId
                  (if correct then 1 else 0) (if correct then 0 else 1) time_a
                # (if write_error written = None then [Select_progress (uid u) deckId] else [])"
    if "progress st cardId = None"
    using assms that
    by (simp add: recordProgress_def progress_write_def fetchProgress_def Let_def
        split: option.splits)
  have refetch: "returned ?call \<and> new_state ?call = new_state (fetchProgress st deckId fetched)"
    if "write_error written = None"
    using assms that by (simp add: recordProgress_def Let_def)
  have failed: "\<not> returned ?call \<and> new_state ?call = st" if "write_error written = Some e"
    using assms that by (simp add: recordProgress_def Let_def)
  note twice = twice_correct [OF assms, of cardId tbl new_id deckId time_a time_b
      next_id time_c time_d]
  from update insert refetch failed twice show ?thesis by blast
qed

theorem recordProgress_counts_witness:
  "user ex_flashcards = Some ex_user \<and> user ex_reviewed = Some ex_user
   \<and> progress ex_flashcards ''c1'' = None \<and> progress ex_reviewed ''c1'' = Some ex_progress
   \<and> issued (recordProgress ex_reviewed ''c1'' ''d1'' False
               ''2026-02-07T09:00:00Z'' ''2026-02-07T09:00:01Z'' stored failed_query)
       = [Update_progress ''g1'' 3 2 ''2026-02-07T09:00:00Z'' ''2026-02-07T09:00:01Z'',
          Select_progress ''u1'' ''d1'']
   \<and> issued (recordProgress ex_flashcards ''c1'' ''d1'' False
               ''2026-02-07T09:00:00Z'' ''2026-02-07T09:00:01Z'' stored failed_query)
       = [Insert_progress ''u1'' ''c1'' ''d1'' 0 1 ''2026-02-07T09:00:00Z'',
          Select_progress ''u1'' ''d1'']
   \<and> returned (fst ex_first) \<and> returned (fst ex_second)
   \<and> progress (new_state (fst ex_second)) ''c1''
       = Some \<lparr>p_id = ''g1'', p_card_id = ''c1'', p_correct_count = 2, p_incorrect_count = 0,
               p_last_reviewed_at = Some ''2026-02-07T09:01:00Z''\<rparr>
   \<and> snd ex_second
       = [\<lparr>row_id = ''g1'', row_user_id = ''u1'', row_card_id = ''c1'', row_deck_id = ''d1'',
           row_correct_count = 2, row_incorrect_count = 0,
           row_last_reviewed_at = Some ''2026-02-07T09:01:00Z''\<rparr>]"
proof -
  have u: "user ex_flashcards = Some ex_user" "user ex_reviewed = Some ex_user"
    by (simp_all add: ex_flashcards_def ex_reviewed_def)
  have p: "progress ex_flashcards ''c1'' = None" "progress ex_reviewed ''c1'' = Some ex_progress"
    by (simp_all add: ex_flashcards_def ex_reviewed_def)
  note a = recordProgress_counts [OF u(1), where cardId = "''c1''" and deckId = "''d1''"
      and correct = False and time_a = "''2026-02-07T09:00:00Z''"
      and time_b = "''2026-02-07T09:00:01Z''" and written = stored and fetched = failed_query
      and tbl = "[]" and new_id = "''g1''"]
  note b = recordProgress_counts [OF u(2), where cardId = "''c1''" and deckId = "''d1''"
      and correct = False and time_a = "''2026-02-07T09:00:00Z''"
      and time_b = "''2026-02-07T09:00:01Z''" and written = stored and fetched = failed_query
      and existing = ex_progress]
  note c = recordProgress_counts [OF u(1), where cardId = "''c1''" and deckId = "''d1''"
      and time_a = "''2026-02-07T09:00:00Z''" and time_b = "''2026-02-07T09:00:00Z''"
      and time_c = "''2026-02-07T09:01:00Z''" and time_d = "''2026-02-07T09:01:00Z''"
      and tbl = "[]" and new_id = "''g1''" and next_id = "''g2''"]
  have twice: "returned (fst ex_first) \<and> returned (fst ex_second)
   \<and> progress (new_state (fst ex_second)) ''c1''
       = Some \<lparr>p_id = ''g1'', p_card_id = ''c1'', p_correct_count = 2, p_incorrect_count = 0,
               p_last_reviewed_at = Some ''2026-02-07T09:01:00Z''\<rparr>
   \<and> filter (\<lambda>r. row_card_id r = ''c1'') (snd ex_second)
       = [\<lparr>row_id = ''g1'', row_user_id = ''u1'', row_card_id = ''c1'', row_deck_id = ''d1'',
           row_correct_count = 2, row_incorrect_count = 0,
           row_last_reviewed_at = Some ''2026-02-07T09:01:00Z''\<rparr>]"
    using c p(1) by (simp add: Let_def ex_first_def ex_second_def ex_user_def)
  have tbl: "snd ex_second
       = [\<lparr>row_id = ''g1'', row_user_id = ''u1'', row_card_id = ''c1'', row_deck_id = ''d1'',
           row_correct_count = 2, row_incorrect_count = 0,
           row_last_reviewed_at = Some ''2026-02-07T09:01:00Z''\<rparr>]"
    by (simp add: ex_second_def ex_first_def recordProgress_served_def ex_flashcards_def
        ex_user_def progress_write_def recordProgress_def fetchProgress_def store_select_def
        or_empty_def progressMap_def as_FlashcardProgress_def apply_update_def)
  show ?thesis
    using a b twice tbl
    by (simp add: u p stored_def ex_progress_def ex_user_def)
qed

subsection \<open>Delete, and operations without a user\<close>

text \<open>
  \<open>deleteDeck\<close> asks for the deleted rows and checks them: with a user and no error from
  the store, an empty result is a failure of its own, with its own message, that leaves the
  mirror, and only a non-empty result removes the deck.
\<close>

lemma deleteDeck_checks_rows:
  assumes "user st = Some u"
  shows "deleteDeck st deckId (Response (Some []) None)
           = \<lparr>new_state = st\<lparr>error := Some (new_Error
                 ''Deck not found or you don't have permission to delete it'')\<rparr>,
              returned = False, issued = [Auth_getSession, Delete_deck deckId]\<rparr>"
    and "deleteDeck st deckId (Response None None)
           = \<lparr>new_state = st\<lparr>error := Some (new_Error
                 ''Deck not found or you don't have permission to delete it'')\<rparr>,
              returned = False, issued = [Auth_getSession, Delete_deck deckId]\<rparr>"
    and "deleteDeck st deckId (Response (Some (row # rows)) None)
           = \<lparr>new_state = st\<lparr>decks := filter (\<lambda>d. d_id d \<noteq> deckId) (decks st)\<rparr>,
              returned = True, issued = [Auth_getSession, Delete_deck deckId]\<rparr>"
    and "deleteDeck st deckId (Response rs (Some e))
           = \<lparr>new_state = st\<lparr>error := Some (caught e ''Failed to delete deck'')\<rparr>,
              returned = False, issued = [Auth_getSession, Delete_deck deckId]\<rparr>"
  using assms by (simp_all add: deleteDeck_def or_empty_def)

text \<open>
  Claim C1. \<open>deleteCard\<close> does not ask for the deleted rows, and what it does depends
  on the error alone. Here the store deleted no row and reported no error: the operation
  returns true, records no error and takes the card out of the mirror.
\<close>

theorem deleteCard_zero_rows:
  "rows_affected (Write_result 0 None) = 0
   \<and> write_error (Write_result 0 None) = None
   \<and> cards ex_flashcards = [ex_card1, ex_card2]
   \<and> deleteCard ex_flashcards ''c1'' (Write_result 0 None)
       = \<lparr>new_state = ex_flashcards\<lparr>cards := [ex_card2]\<rparr>, returned = True,
          issued = [Delete_card ''c1'']\<rparr>
   \<and> error (new_state (deleteCard ex_flashcards ''c1'' (Write_result 0 None))) = None"
  by (simp add: deleteCard_def ex_flashcards_def ex_card1_def ex_card2_def)

text \<open>
  The operations that check for a user: without one they issue no call and return their
  failure value; \<open>deleteDeck\<close> also records an error.
\<close>

lemma signed_out_short_circuit:
  assumes "user st = None"
  shows "createDeck st name description created
           = \<lparr>new_state = st, returned = None, issued = []\<rparr>"
    and "deleteDeck st deckId deleted
           = \<lparr>new_state = st\<lparr>error := Some (new_Error ''User not authenticated'')\<rparr>,
              returned = False, issued = []\<rparr>"
    and "recordProgress st cardId deckId correct time_a time_b written fetched
           = \<lparr>new_state = st, returned = False, issued = []\<rparr>"
  using assms by (simp_all add: createDeck_def deleteDeck_def recordProgress_def)

lemma signed_out_favorites:
  assumes "fav_user st = None"
  shows "addFavorite st w resp = \<lparr>new_state = st, returned = False, issued = []\<rparr>"
    and "removeFavorite st w resp = \<lparr>new_state = st, returned = False, issued = []\<rparr>"
  using assms by (simp_all add: addFavorite_def removeFavorite_def)

text \<open>
  Claim C2. The card operations do not check for a user. Here nobody is signed in:
  \<open>addCard\<close> issues the insert all the same, and as the store answers with a row, returns
  the card and appends it to the mirror.
\<close>

theorem addCard_signed_out:
  "user ex_signed_out = None
   \<and> addCard ex_signed_out ''d1'' ''gracias'' ''thanks'' (Single_row ex_card3)
       = \<lparr>new_state = ex_signed_out\<lparr>cards := [ex_card1, ex_card2, ex_card3]\<rparr>,
          returned = Some ex_card3,
          issued = [Insert_card ''d1'' ''gracias'' ''thanks'' 2]\<rparr>"
  by (simp add: addCard_def ex_signed_out_def ex_flashcards_def)

lemma card_operations_unguarded:
  "issued (addCard st deckId frontText backText inserted)
     = [Insert_card deckId frontText backText (int (length (cards st)))]"
  "issued (updateCard st cardId frontText backText now updated)
     = [Update_card cardId frontText backText now]"
  "issued (deleteCard st cardId deleted) = [Delete_card cardId]"
  by (simp_all add: addCard_def updateCard_def deleteCard_def Let_def
      split: pg_single.splits option.splits)

end
